theory Spec2Isabelle
  imports Main "HOL-Library.Word"
begin

unbundle bit_operations_syntax

section \<open>pam_namespace: the polyinstantiation engine\<close>

text \<open>
  A shallow embedding of \<^verbatim>\<open>modules/pam_namespace/pam_namespace.c\<close>, built with
  \<^verbatim>\<open>WITH_SELINUX\<close>.  Every C function is a HOL function of the same name.  A function
  that calls the operating system, libpam or libselinux takes the \<open>world\<close> and returns
  the new one; a call that can fail fails when the world's \<open>fails\<close> oracle says so, or
  when the state of the world makes it fail (a path that does not exist, a directory that
  exists already).  The oracle does not change during a call of the module: a call with
  the same arguments fails every time or never, and memory allocation fails everywhere
  or nowhere.  Diagnostics of priority \<^verbatim>\<open>LOG_ERR\<close> and \<^verbatim>\<open>LOG_NOTICE\<close> are recorded in the
  world's trace by their format strings (an apostrophe in one is left out); the
  \<^verbatim>\<open>LOG_DEBUG\<close> lines, which are guarded by \<^verbatim>\<open>PAMNS_DEBUG\<close> and change no control flow, are
  left out.  Freeing memory is not modelled, except that \<^verbatim>\<open>del_polydir_list\<close> leaves an
  event in the trace.
\<close>

subsection \<open>Data model\<close>

type_synonym uid_t = "32 word"
type_synonym gid_t = "32 word"
type_synonym mode_t = "32 word"

text \<open>\<^verbatim>\<open>enum polymethod\<close>.\<close>

datatype polymethod = NONE | USER | CONTEXT | LEVEL | TMPDIR | TMPFS

text \<open>\<^verbatim>\<open>enum unmnt_op\<close>.\<close>

datatype unmnt_op = NO_UNMNT | UNMNT_REMNT | UNMNT_ONLY

text \<open>
  \<^verbatim>\<open>struct polydir_s\<close>: one rule.  \<open>uid\<close> is the array of override uids, of which the
  first \<open>num_uids\<close> entries are meaningful; \<open>exclusive\<close> is a C \<^verbatim>\<open>int\<close> used as a truth
  value.  The \<^verbatim>\<open>next\<close> pointer is the list structure of \<open>polydir_s list\<close>.
\<close>

record polydir_s =
  dir :: string
  instance_prefix :: string
  "method" :: polymethod
  num_uids :: nat
  uid :: "uid_t list"
  exclusive :: int

text \<open>The bits of \<^verbatim>\<open>idata->flags\<close>; \<^verbatim>\<open>flags & F\<close> is membership.\<close>

datatype pamns_flag =
    PAMNS_DEBUG | PAMNS_SELINUX_ENABLED | PAMNS_CTXT_BASED_INST | PAMNS_GEN_HASH
  | PAMNS_IGN_CONFIG_ERR | PAMNS_IGN_INST_PARENT_MODE | PAMNS_NO_UNMOUNT_ON_CLOSE

text \<open>
  \<^verbatim>\<open>struct instance_data\<close>.  The field \<^verbatim>\<open>uid\<close> of the C struct is \<open>uid_sess\<close> here (the
  name \<open>uid\<close> is taken by the rule's array); the handle \<^verbatim>\<open>pamh\<close> is the world.
\<close>

record instance_data =
  flags :: "pamns_flag set"
  polydirs_ptr :: "polydir_s list"
  user :: string
  uid_sess :: uid_t

text \<open>Return codes of libpam.\<close>

abbreviation (input) PAM_SUCCESS :: int where "PAM_SUCCESS \<equiv> 0"
abbreviation (input) PAM_SERVICE_ERR :: int where "PAM_SERVICE_ERR \<equiv> 3"
abbreviation (input) PAM_SYSTEM_ERR :: int where "PAM_SYSTEM_ERR \<equiv> 4"
abbreviation (input) PAM_BUF_ERR :: int where "PAM_BUF_ERR \<equiv> 5"
abbreviation (input) PAM_SESSION_ERR :: int where "PAM_SESSION_ERR \<equiv> 14"
abbreviation (input) PAM_NO_MODULE_DATA :: int where "PAM_NO_MODULE_DATA \<equiv> 18"

text \<open>
  What \<^verbatim>\<open>pam_namespace.h\<close> and the MD5 library provide; neither is among the sources, so
  they are parameters of the model.  \<open>MD5 s i\<close> is byte \<open>i\<close> of the digest of \<open>s\<close>.
\<close>

record consts_h =
  MD5 :: "string \<Rightarrow> nat \<Rightarrow> 8 word"
  NAMESPACE_MAX_DIR_LEN :: nat
  PATH_MAX :: nat
  LOGIN_NAME_MAX :: nat
  NAMESPACE_INIT_SCRIPT :: string
  PAM_NAMESPACE_CONFIG :: string

subsection \<open>The world\<close>

datatype errno = EINVAL | EEXIST | ENOENT | ENOTDIR | EBUSY | EPERM | ENOMEM

datatype syscall =
    Sys_malloc
  | Sys_signal
  | Sys_fork
  | Sys_waitpid
  | Sys_setexeccon
  | Sys_execl string
  | Sys_fopen string
  | Sys_stat string
  | Sys_access string
  | Sys_mkdir string
  | Sys_mkdtemp string
  | Sys_open string
  | Sys_fstat string
  | Sys_fchown string
  | Sys_fchmod string
  | Sys_fsetfilecon string
  | Sys_rmdir string
  | Sys_mount string string
  | Sys_umount string
  | Sys_unshare
  | Sys_getcwd
  | Sys_chdir string
  | Sys_pam_get_item
  | Sys_getfilecon string

datatype priority = LOG_ERR | LOG_NOTICE

text \<open>
  What a call leaves behind for an observer: the calls that matter to the session, in
  the order they were made (newest first), whether they succeeded or not.
  \<open>Call_exec\<close> has the path of the program followed by its argument vector, as
  \<^verbatim>\<open>execl\<close> takes them.  \<open>Call_mkdtemp n\<close> is a call of \<^verbatim>\<open>mkdtemp\<close> that created the
  directory \<open>n\<close>.
\<close>

datatype event =
    Syslog priority string
  | Call_unshare
  | Call_mount string string
  | Call_umount string
  | Call_exec "string list"
  | Call_mkdtemp string
  | Call_del_polydir_list

text \<open>How a child process ended, as \<^verbatim>\<open>waitpid\<close> reports it.\<close>

datatype wstatus = Exited nat | Signaled nat

datatype sighandler = SIG_DFL | SIG_IGN | Handler nat

record inode =
  st_uid :: uid_t
  st_gid :: gid_t
  st_mode :: mode_t
  con :: "string option"

record passwd =
  pw_uid :: uid_t
  pw_dir :: string

text \<open>
  The world: the file system keyed by path string (no symbolic links, and a mount does
  not change what a path shows), the mount table (source and target, newest first), the
  process, the PAM handle, the user database, libselinux, and the oracles for what the
  model cannot know: which calls fail, how a program that was run ends
  (\<open>prog_status\<close>), and what it did to the file system and to the mount table, which
  the child shares with the process (\<open>prog_effect\<close>, from the two before the program
  to the two after it).  \<open>xperm p\<close> says whether the real uid may execute \<open>p\<close>.
\<close>

record world =
  fails :: "syscall \<Rightarrow> errno option"
  fs :: "string \<rightharpoonup> inode"
  xperm :: "string \<Rightarrow> bool"
  mounts :: "(string \<times> string) list"
  cwd :: string
  ruid :: uid_t
  euid :: uid_t
  egid :: gid_t
  umask :: mode_t
  sigchld :: sighandler
  tmp_suffix :: "string \<Rightarrow> string"
  prog_status :: "string list \<Rightarrow> wstatus"
  prog_effect :: "string list \<Rightarrow> (string \<rightharpoonup> inode) \<times> (string \<times> string) list
                    \<Rightarrow> (string \<rightharpoonup> inode) \<times> (string \<times> string) list"
  getpwnam :: "string \<rightharpoonup> passwd"
  pam_user :: "string option"
  pam_ruser :: "string option"
  pam_data :: "polydir_s list option"
  conf_lines :: "string list"
  selinux_enabled :: bool
  execcon :: "string option"
  compute_member :: "string \<Rightarrow> string \<Rightarrow> string option"
  context_ok :: "string \<Rightarrow> bool"
  context_with_range :: "string \<Rightarrow> string \<Rightarrow> string option"
  trans_to_raw :: "string option \<Rightarrow> string option option"
  trace :: "event list"

definition pam_syslog :: "priority \<Rightarrow> string \<Rightarrow> world \<Rightarrow> world" where
  "pam_syslog p msg w = w\<lparr>trace := Syslog p msg # trace w\<rparr>"

definition call :: "event \<Rightarrow> world \<Rightarrow> world" where
  "call e w = w\<lparr>trace := e # trace w\<rparr>"

subsection \<open>The rule list\<close>

text \<open>
  \<^verbatim>\<open>copy_ent\<close>: the copy has an array of exactly \<open>num_uids\<close> entries, or none when
  \<open>num_uids\<close> is 0.  \<open>None\<close> is the C function's \<open>-1\<close>.
\<close>

definition copy_ent :: "polydir_s \<Rightarrow> world \<Rightarrow> polydir_s option" where
  "copy_ent ent w =
     (if num_uids ent \<noteq> 0 then
        (if fails w Sys_malloc \<noteq> None then None
         else Some (ent\<lparr>uid := take (num_uids ent) (uid ent)\<rparr>))
      else Some (ent\<lparr>uid := []\<rparr>))"

text \<open>\<^verbatim>\<open>add_polydir_entry\<close>: appends the copy at the tail of the list.\<close>

definition add_polydir_entry ::
  "instance_data \<Rightarrow> polydir_s \<Rightarrow> world \<Rightarrow> int \<times> instance_data" where
  "add_polydir_entry idata ent w =
     (if fails w Sys_malloc \<noteq> None then (-1, idata)
      else case copy_ent ent w of
             None \<Rightarrow> (-1, idata)
           | Some pent \<Rightarrow> (0, idata\<lparr>polydirs_ptr := polydirs_ptr idata @ [pent]\<rparr>))"

text \<open>\<^verbatim>\<open>del_polydir_list\<close>: frees every entry.\<close>

definition del_polydir_list :: "polydir_s list \<Rightarrow> world \<Rightarrow> world" where
  "del_polydir_list polydirs w = call Call_del_polydir_list w"

subsection \<open>Override evaluator\<close>

text \<open>
  \<^verbatim>\<open>ns_override\<close>: the loop \<^verbatim>\<open>for (i = 0; i < polyptr->num_uids; i++)\<close>, started at \<open>i\<close>.
  C's \<^verbatim>\<open>!x\<close> is 1 when \<open>x\<close> is 0, and 0 otherwise.
\<close>

definition c_not :: "int \<Rightarrow> int" where
  "c_not x = (if x = 0 then 1 else 0)"

function ns_override_loop :: "polydir_s \<Rightarrow> uid_t \<Rightarrow> nat \<Rightarrow> int" where
  "ns_override_loop polyptr u i =
     (if i < num_uids polyptr then
        (if u = uid polyptr ! i then c_not (exclusive polyptr)
         else ns_override_loop polyptr u (Suc i))
      else exclusive polyptr)"
  by pat_completeness auto
termination
  by (relation "measure (\<lambda>(p, u, i). num_uids p - i)") auto

definition ns_override :: "polydir_s \<Rightarrow> instance_data \<Rightarrow> uid_t \<Rightarrow> int" where
  "ns_override polyptr idata u = ns_override_loop polyptr u 0"

subsection \<open>C strings\<close>

text \<open>
  A C string is the list of its characters before the terminating NUL.
  \<^verbatim>\<open>isspace\<close> in the C locale: space, and the five controls from tab to carriage return.
\<close>

definition isspace :: "char \<Rightarrow> bool" where
  "isspace c = (c \<in> {CHR '' '', CHR 0x09, CHR 0x0A, CHR 0x0B, CHR 0x0C, CHR 0x0D})"

text \<open>\<^verbatim>\<open>tptr = strchr(s, c); if (tptr) *tptr = '\0';\<close>\<close>

definition cut_at :: "char \<Rightarrow> string \<Rightarrow> string" where
  "cut_at c s = takeWhile (\<lambda>x. x \<noteq> c) s"

text \<open>\<^verbatim>\<open>tptr = strrchr(s, c); if (tptr) *tptr = '\0';\<close>\<close>

definition cut_at_last :: "char \<Rightarrow> string \<Rightarrow> string" where
  "cut_at_last c s = (if c \<in> set s then rev (tl (dropWhile (\<lambda>x. x \<noteq> c) (rev s))) else s)"

text \<open>
  \<^verbatim>\<open>strtok_r(s, delim, &save)\<close>: the next token, if there is one, and what is left after
  the delimiter that ended it.
\<close>

definition strtok_r :: "string \<Rightarrow> string \<Rightarrow> string option \<times> string" where
  "strtok_r s delim =
     (let s1 = dropWhile (\<lambda>c. c \<in> set delim) s in
      if s1 = [] then (None, [])
      else (Some (takeWhile (\<lambda>c. c \<notin> set delim) s1),
            drop 1 (dropWhile (\<lambda>c. c \<notin> set delim) s1)))"

text \<open>\<^verbatim>\<open>strstr(haystack, needle)\<close>: the offset of the first occurrence, \<open>None\<close> for NULL.\<close>

fun strstr :: "string \<Rightarrow> string \<Rightarrow> nat option" where
  "strstr [] needle = (if needle = [] then Some 0 else None)"
| "strstr (c # cs) needle =
     (if take (length needle) (c # cs) = needle then Some 0
      else map_option Suc (strstr cs needle))"

text \<open>\<^verbatim>\<open>s[0] == c\<close>; the first character of the empty string is NUL.\<close>

definition first_is :: "char \<Rightarrow> string \<Rightarrow> bool" where
  "first_is c s = (case s of [] \<Rightarrow> False | x # _ \<Rightarrow> x = c)"

text \<open>The pieces between the commas of a string: one more than it has commas.\<close>

fun split_commas :: "string \<Rightarrow> string list" where
  "split_commas [] = [[]]"
| "split_commas (c # cs) =
     (if c = CHR '','' then [] # split_commas cs
      else (case split_commas cs of [] \<Rightarrow> [[c]] | x # xs \<Rightarrow> (c # x) # xs))"

subsection \<open>Config loader\<close>

text \<open>Lines 153 to 168 of \<^verbatim>\<open>process_line\<close>: leading white space, comment, newline.\<close>

definition strip_line :: "string \<Rightarrow> string" where
  "strip_line line = cut_at (CHR 0x0A) (cut_at (CHR ''#'') (dropWhile isspace line))"

text \<open>
  Lines 217 to 229: the first \<^verbatim>\<open>$USER\<close> of the instance prefix is replaced by the user
  name, then the first \<^verbatim>\<open>$HOME\<close> of the result by the home directory.
\<close>

definition expand_prefix :: "string \<Rightarrow> string \<Rightarrow> string \<Rightarrow> string" where
  "expand_prefix iprefix usr home =
     (let p1 = (case strstr iprefix ''$USER'' of
                  None \<Rightarrow> iprefix
                | Some i \<Rightarrow> take i iprefix @ usr @ drop (i + 5) iprefix)
      in case strstr p1 ''$HOME'' of
           None \<Rightarrow> p1
         | Some i \<Rightarrow> take i p1 @ home @ drop (i + 5) p1)"

text \<open>Lines 243 to 274: the method keyword, one \<^verbatim>\<open>if\<close> after the other.\<close>

definition method_of_keyword :: "string \<Rightarrow> instance_data \<Rightarrow> polymethod" where
  "method_of_keyword m idata =
     (let p0 = NONE;
          p1 = (if m = ''user'' then USER else p0);
          p2 = (if m = ''tmpdir'' then TMPDIR else p1);
          p3 = (if m = ''tmpfs'' then TMPFS else p2);
          p4 = (if m = ''level''
                then (if PAMNS_CTXT_BASED_INST \<in> flags idata then LEVEL else USER) else p3);
          p5 = (if m = ''context''
                then (if PAMNS_CTXT_BASED_INST \<in> flags idata then CONTEXT else USER) else p4)
      in p5)"

text \<open>
  Lines 320 to 336: each name of the override field is looked up; an unknown one is
  reported and dropped.  The result is the filled part of the array.
\<close>

fun lookup_uids :: "string list \<Rightarrow> world \<Rightarrow> uid_t list \<times> world" where
  "lookup_uids [] w = ([], w)"
| "lookup_uids (ustr # rest) w =
     (case getpwnam w ustr of
        None \<Rightarrow> lookup_uids rest (pam_syslog LOG_ERR ''Unknown user %s in configuration'' w)
      | Some pwd \<Rightarrow> (case lookup_uids rest w of (us, w') \<Rightarrow> (pw_uid pwd # us, w')))"

text \<open>The label \<^verbatim>\<open>skipping\<close>: the value returned for a rejected line.\<close>

definition skipping :: "instance_data \<Rightarrow> int" where
  "skipping idata = (if PAMNS_IGN_CONFIG_ERR \<in> flags idata then 0 else PAM_SERVICE_ERR)"

definition skip_line ::
  "string \<Rightarrow> instance_data \<Rightarrow> world \<Rightarrow> int \<times> instance_data \<times> world" where
  "skip_line msg idata w = (skipping idata, idata, pam_syslog LOG_NOTICE msg w)"

text \<open>
  Lines 299 to 347: the override field is parsed, and the rule is appended to the list.
  The array \<open>uid\<close> of the local rule has one slot for each piece of the field, of which
  the first \<open>num_uids\<close> are written; the model keeps those.
\<close>

definition add_rule ::
  "polydir_s \<Rightarrow> string option \<Rightarrow> instance_data \<Rightarrow> world \<Rightarrow> int \<times> instance_data \<times> world" where
  "add_rule poly uids idata w =
     (case uids of
        None \<Rightarrow>
          (case add_polydir_entry idata poly w of
             (rc, idata') \<Rightarrow>
               if rc < 0 then (PAM_SERVICE_ERR, idata', pam_syslog LOG_ERR ''Allocation Error'' w)
               else (0, idata', w))
      | Some u0 \<Rightarrow>
          (let excl = (if first_is (CHR ''~'') u0 then 1 else exclusive poly);
               u = (if first_is (CHR ''~'') u0 then tl u0 else u0)
           in if fails w Sys_malloc \<noteq> None
              then skip_line ''out of memory'' idata w
              else case lookup_uids (split_commas u) w of
                     (us, w1) \<Rightarrow>
                       (case add_polydir_entry idata
                               (poly\<lparr>exclusive := excl, num_uids := length us, uid := us\<rparr>) w1 of
                          (rc, idata') \<Rightarrow>
                            if rc < 0
                            then (PAM_SERVICE_ERR, idata', pam_syslog LOG_ERR ''Allocation Error'' w1)
                            else (0, idata', w1))))"

text \<open>\<^verbatim>\<open>process_line\<close>.  \<^verbatim>\<open>sizeof(poly.dir)\<close> and \<^verbatim>\<open>sizeof(poly.instance_prefix)\<close> are
  \<open>PATH_MAX\<close>.\<close>

definition process_line ::
  "consts_h \<Rightarrow> string \<Rightarrow> string \<Rightarrow> instance_data \<Rightarrow> world \<Rightarrow> int \<times> instance_data \<times> world" where
  "process_line K line0 home idata w =
     (let line = strip_line line0 in
      if line = [] then (0, idata, w)
      else case strtok_r line [CHR '' '', CHR 0x09] of
        (None, _) \<Rightarrow> skip_line ''Invalid line missing polydir'' idata w
      | (Some dir0, r1) \<Rightarrow>
      (case strtok_r r1 [CHR '' '', CHR 0x09] of
        (None, _) \<Rightarrow> skip_line ''Invalid line missing instance_prefix'' idata w
      | (Some prefix0, r2) \<Rightarrow>
      (case strtok_r r2 [CHR '' '', CHR 0x09] of
        (None, _) \<Rightarrow> skip_line ''Invalid line missing method'' idata w
      | (Some meth, r3) \<Rightarrow>
      (let uids = fst (strtok_r r3 [CHR '' '', CHR 0x09]);
           d = (if dir0 = ''$HOME'' then home else dir0);
           iprefix = expand_prefix prefix0 (user idata) home
       in if PATH_MAX K \<le> length d \<or> PATH_MAX K \<le> length iprefix
          then skip_line ''Pathnames too long'' idata w
          else if meth = ''tmpdir'' \<and> PATH_MAX K - length iprefix < 7
          then skip_line ''Pathnames too long'' idata w
          else
            (let poly = \<lparr>dir = d,
                         instance_prefix =
                           (if meth = ''tmpdir'' then iprefix @ ''XXXXXX'' else iprefix),
                         method = method_of_keyword meth idata,
                         num_uids = 0, uid = [], exclusive = 0\<rparr>
             in if method poly = NONE then skip_line ''Illegal method'' idata w
                else if \<not> first_is (CHR ''/'') d
                        \<or> (method poly \<noteq> TMPFS \<and> \<not> first_is (CHR ''/'') iprefix)
                then skip_line ''Pathnames must start with /'' idata w
                else if strstr d ''..'' \<noteq> None \<or> strstr iprefix ''..'' \<noteq> None
                then skip_line ''Pathnames must not contain ..'' idata w
                else add_rule poly uids idata w)))))"

text \<open>The loop of \<^verbatim>\<open>parse_config_file\<close> over the lines that \<^verbatim>\<open>getline\<close> returns.\<close>

fun process_lines ::
  "consts_h \<Rightarrow> string list \<Rightarrow> string \<Rightarrow> instance_data \<Rightarrow> world \<Rightarrow> int \<times> instance_data \<times> world" where
  "process_lines K [] home idata w = (PAM_SUCCESS, idata, w)"
| "process_lines K (line # rest) home idata w =
     (case process_line K line home idata w of
        (retval, idata', w') \<Rightarrow>
          if retval \<noteq> 0
          then (PAM_SERVICE_ERR, idata',
                pam_syslog LOG_ERR ''Error processing conf file line %s'' w')
          else process_lines K rest home idata' w')"

text \<open>\<^verbatim>\<open>parse_config_file\<close>; the file's lines are \<open>conf_lines\<close> of the world.\<close>

definition parse_config_file ::
  "consts_h \<Rightarrow> instance_data \<Rightarrow> world \<Rightarrow> int \<times> instance_data \<times> world" where
  "parse_config_file K idata w =
     (case getpwnam w (user idata) of
        None \<Rightarrow> (PAM_SESSION_ERR, idata, pam_syslog LOG_ERR ''Error getting home dir for %s'' w)
      | Some cpwd \<Rightarrow>
          if fails w (Sys_fopen (PAM_NAMESPACE_CONFIG K)) \<noteq> None
          then (PAM_SERVICE_ERR, idata, pam_syslog LOG_ERR ''Error opening config file'' w)
          else process_lines K (conf_lines w) (pw_dir cpwd) idata w)"

subsection \<open>Instance namer\<close>

text \<open>
  Modelled from the spec: \<^verbatim>\<open>MD5_DIGEST_LENGTH\<close>, a constant of the MD5 library's header,
  which is not among the sources.  The specification has a digest of 16 bytes, written
  as 32 hexadecimal characters.
\<close>

definition MD5_DIGEST_LENGTH :: nat where
  "MD5_DIGEST_LENGTH = 16"

definition hexdigit :: "nat \<Rightarrow> char" where
  "hexdigit n = ''0123456789abcdef'' ! (n mod 16)"

text \<open>\<^verbatim>\<open>snprintf(to, 3, "%02x", (unsigned int)b)\<close>: two lower-case hexadecimal digits.\<close>

definition hex2 :: "8 word \<Rightarrow> string" where
  "hex2 b = [hexdigit (unat b div 16), hexdigit (unat b mod 16)]"

text \<open>The digest of a name in hexadecimal: what the loop of \<^verbatim>\<open>md5hash\<close> writes.\<close>

definition md5hex :: "consts_h \<Rightarrow> string \<Rightarrow> string" where
  "md5hex K instname = concat (map (\<lambda>i. hex2 (MD5 K instname i)) [0..<MD5_DIGEST_LENGTH])"

text \<open>\<^verbatim>\<open>md5hash\<close>: \<open>None\<close> is NULL, returned when the buffer cannot be allocated.\<close>

definition md5hash :: "consts_h \<Rightarrow> string \<Rightarrow> world \<Rightarrow> string option \<times> world" where
  "md5hash K instname w =
     (if fails w Sys_malloc \<noteq> None
      then (None, pam_syslog LOG_ERR ''Unable to allocate buffer'' w)
      else (Some (md5hex K instname), w))"

text \<open>\<^verbatim>\<open>getfilecon\<close> and \<^verbatim>\<open>getexeccon\<close>: \<open>None\<close> when the call fails or leaves NULL.\<close>

definition getfilecon :: "string \<Rightarrow> world \<Rightarrow> string option" where
  "getfilecon p w =
     (if fails w (Sys_getfilecon p) \<noteq> None then None
      else case fs w p of None \<Rightarrow> None | Some i \<Rightarrow> con i)"

definition getexeccon :: "world \<Rightarrow> string option" where
  "getexeccon w = execcon w"

text \<open>
  \<^verbatim>\<open>form_context\<close>: the return code, \<^verbatim>\<open>*i_context\<close> and \<^verbatim>\<open>*origcon\<close>.  For the method
  \<^verbatim>\<open>LEVEL\<close>, \<open>context_ok\<close> says whether \<^verbatim>\<open>context_new\<close> returns a context, and
  \<open>context_with_range f s\<close> is \<open>f\<close> with the range of \<open>s\<close>, when \<^verbatim>\<open>context_range_set\<close>
  succeeds.
\<close>

definition form_context ::
  "polydir_s \<Rightarrow> instance_data \<Rightarrow> world \<Rightarrow> int \<times> string option \<times> string option \<times> world" where
  "form_context polyptr idata w =
     (case getfilecon (dir polyptr) w of
        None \<Rightarrow> (PAM_SESSION_ERR, None, None,
                 pam_syslog LOG_ERR ''Error getting poly dir context, %m'' w)
      | Some origcon \<Rightarrow>
          if method polyptr = USER then (PAM_SUCCESS, None, Some origcon, w)
          else (case getexeccon w of
            None \<Rightarrow> (PAM_SESSION_ERR, None, Some origcon,
                     pam_syslog LOG_ERR ''Error getting exec context, %m'' w)
          | Some scon \<Rightarrow>
              if method polyptr = CONTEXT then
                (case compute_member w scon origcon of
                   None \<Rightarrow> (PAM_SESSION_ERR, None, Some origcon,
                            pam_syslog LOG_ERR ''Error computing poly dir member context'' w)
                 | Some ic \<Rightarrow> (PAM_SUCCESS, Some ic, Some origcon, w))
              else if method polyptr = LEVEL then
                (if \<not> context_ok w scon
                 then (PAM_SESSION_ERR, None, Some origcon, pam_syslog LOG_ERR ''out of memory'' w)
                 else if \<not> context_ok w origcon
                 then (PAM_SESSION_ERR, None, Some origcon, pam_syslog LOG_ERR ''out of memory'' w)
                 else (case context_with_range w origcon scon of
                   None \<Rightarrow> (PAM_SESSION_ERR, None, Some origcon,
                            pam_syslog LOG_ERR ''Unable to set MLS Componant of context'' w)
                 | Some fc \<Rightarrow>
                     if fails w Sys_malloc \<noteq> None
                     then (PAM_SESSION_ERR, None, Some origcon,
                           pam_syslog LOG_ERR ''out of memory'' w)
                     else (PAM_SUCCESS, Some fc, Some origcon, w)))
              else (PAM_SUCCESS, None, Some origcon, w)))"

text \<open>What glibc prints for \<^verbatim>\<open>%s\<close>: the string, or \<^verbatim>\<open>(null)\<close> for a NULL pointer.\<close>

definition printf_s :: "string option \<Rightarrow> string" where
  "printf_s s = (case s of None \<Rightarrow> ''(null)'' | Some x \<Rightarrow> x)"

text \<open>\<^verbatim>\<open>%.*s\<close> with precision \<open>n\<close>: a negative precision is taken as if it were omitted.\<close>

definition printf_prec_s :: "int \<Rightarrow> string \<Rightarrow> string" where
  "printf_prec_s n s = (if n < 0 then s else take (nat n) s)"

text \<open>
  Lines 665 to 683 of \<^verbatim>\<open>poly_name\<close>: the name after the hashing step, \<open>None\<close> for
  \<^verbatim>\<open>goto fail\<close>.
\<close>

definition hash_name ::
  "consts_h \<Rightarrow> instance_data \<Rightarrow> string \<Rightarrow> world \<Rightarrow> string option \<times> world" where
  "hash_name K idata i_name w =
     (if PAMNS_GEN_HASH \<in> flags idata \<or> NAMESPACE_MAX_DIR_LEN K < length i_name then
        (case md5hash K i_name w of
           (None, w1) \<Rightarrow> (None, w1)
         | (Some hash, w1) \<Rightarrow>
             if PAMNS_GEN_HASH \<in> flags idata then (Some hash, w1)
             else if fails w1 Sys_malloc \<noteq> None then (None, w1)
             else (Some (printf_prec_s (int (NAMESPACE_MAX_DIR_LEN K) - 1 - int (length hash)) i_name
                         @ ''_'' @ hash), w1))
      else (Some i_name, w))"

text \<open>
  Lines 627 to 660 of \<^verbatim>\<open>poly_name\<close>, the \<^verbatim>\<open>switch\<close>: \<open>Inl ()\<close> for \<^verbatim>\<open>goto fail\<close>,
  \<open>Inr (True, name)\<close> for the \<^verbatim>\<open>return PAM_SUCCESS\<close> of the methods \<^verbatim>\<open>TMPDIR\<close> and \<^verbatim>\<open>TMPFS\<close>,
  \<open>Inr (False, name)\<close> for \<^verbatim>\<open>break\<close>.
\<close>

definition name_of_method ::
  "polydir_s \<Rightarrow> instance_data \<Rightarrow> string option \<Rightarrow> world \<Rightarrow> (unit + bool \<times> string) \<times> world" where
  "name_of_method polyptr idata i_context w =
     (case method polyptr of
        USER \<Rightarrow>
          if fails w Sys_malloc \<noteq> None then (Inl (), w) else (Inr (False, user idata), w)
      | LEVEL \<Rightarrow>
          (case trans_to_raw w i_context of
             None \<Rightarrow> (Inl (), pam_syslog LOG_ERR ''Error translating directory context'' w)
           | Some rawcon \<Rightarrow>
               if fails w Sys_malloc \<noteq> None then (Inl (), w)
               else (Inr (False, printf_s rawcon @ ''_'' @ user idata), w))
      | CONTEXT \<Rightarrow>
          (case trans_to_raw w i_context of
             None \<Rightarrow> (Inl (), pam_syslog LOG_ERR ''Error translating directory context'' w)
           | Some rawcon \<Rightarrow>
               if fails w Sys_malloc \<noteq> None then (Inl (), w)
               else (Inr (False, printf_s rawcon @ ''_'' @ user idata), w))
      | TMPDIR \<Rightarrow> if fails w Sys_malloc \<noteq> None then (Inl (), w) else (Inr (True, []), w)
      | TMPFS \<Rightarrow> if fails w Sys_malloc \<noteq> None then (Inl (), w) else (Inr (True, []), w)
      | NONE \<Rightarrow>
          (Inl (), if PAMNS_DEBUG \<in> flags idata then pam_syslog LOG_ERR ''Unknown method'' w else w))"

text \<open>
  \<^verbatim>\<open>poly_name\<close>: the return code, \<^verbatim>\<open>*i_name\<close>, \<^verbatim>\<open>*i_context\<close> and \<^verbatim>\<open>*origcon\<close>.  After
  \<^verbatim>\<open>fail:\<close> with an error the three are NULL.
\<close>

definition poly_name ::
  "consts_h \<Rightarrow> polydir_s \<Rightarrow> instance_data \<Rightarrow> world \<Rightarrow>
     int \<times> string option \<times> string option \<times> string option \<times> world" where
  "poly_name K polyptr idata w =
     (case (if PAMNS_SELINUX_ENABLED \<in> flags idata then form_context polyptr idata w
            else (PAM_SUCCESS, None, None, w)) of
        (rc, i_context, origcon, w1) \<Rightarrow>
          if rc \<noteq> PAM_SUCCESS then (rc, None, i_context, origcon, w1)
          else (case name_of_method polyptr idata i_context w1 of
            (Inl _, w2) \<Rightarrow> (PAM_SESSION_ERR, None, None, None, w2)
          | (Inr (True, i_name), w2) \<Rightarrow> (PAM_SUCCESS, Some i_name, i_context, origcon, w2)
          | (Inr (False, i_name), w2) \<Rightarrow>
              (case hash_name K idata i_name w2 of
                 (None, w3) \<Rightarrow> (PAM_SESSION_ERR, None, None, None, w3)
               | (Some n, w3) \<Rightarrow> (PAM_SUCCESS, Some n, i_context, origcon, w3))))"

subsection \<open>System calls\<close>

text \<open>
  Each call fails when the oracle \<open>fails\<close> names an error for it, and otherwise acts on
  the state of the world.  A file descriptor opened on a path is modelled by the path.
\<close>

definition S_ISDIR :: "mode_t \<Rightarrow> bool" where
  "S_ISDIR m = (m AND 0xF000 = 0x4000)"

text \<open>\<^verbatim>\<open>stat\<close> and \<^verbatim>\<open>fstat\<close>: \<open>None\<close> for a negative return value.\<close>

definition c_stat :: "string \<Rightarrow> world \<Rightarrow> inode option" where
  "c_stat p w = (if fails w (Sys_stat p) \<noteq> None then None else fs w p)"

definition c_fstat :: "string \<Rightarrow> world \<Rightarrow> inode option" where
  "c_fstat fd w = (if fails w (Sys_fstat fd) \<noteq> None then None else fs w fd)"

text \<open>
  \<^verbatim>\<open>access(p, F_OK) == 0\<close> and \<^verbatim>\<open>access(p, X_OK) == 0\<close>.  The call checks with the real
  uid of the process, and it fails like any other call: the oracle has the error for a
  path that the real uid cannot reach (\<^verbatim>\<open>EACCES\<close> under a directory that it may not
  search, such as an instance parent of mode 000 for a real uid other than root).
\<close>

definition access_F_OK :: "string \<Rightarrow> world \<Rightarrow> bool" where
  "access_F_OK p w = (fails w (Sys_access p) = None \<and> fs w p \<noteq> None)"

definition access_X_OK :: "string \<Rightarrow> world \<Rightarrow> bool" where
  "access_X_OK p w = (fails w (Sys_access p) = None \<and> fs w p \<noteq> None \<and> xperm w p)"

text \<open>
  \<^verbatim>\<open>signal(SIGCHLD, h)\<close>: the previous disposition; \<open>None\<close> is \<^verbatim>\<open>SIG_ERR\<close>, which is
  returned when the call fails and is no disposition to install.
\<close>

definition c_signal :: "sighandler option \<Rightarrow> world \<Rightarrow> sighandler option \<times> world" where
  "c_signal h w =
     (case h of
        None \<Rightarrow> (None, w)
      | Some h' \<Rightarrow>
          if fails w Sys_signal \<noteq> None then (None, w)
          else (Some (sigchld w), w\<lparr>sigchld := h'\<rparr>))"

text \<open>\<^verbatim>\<open>mkdir(p, m)\<close>: \<open>None\<close> for success, the error otherwise.\<close>

definition c_mkdir :: "string \<Rightarrow> mode_t \<Rightarrow> world \<Rightarrow> errno option \<times> world" where
  "c_mkdir p m w =
     (case fails w (Sys_mkdir p) of
        Some e \<Rightarrow> (Some e, w)
      | None \<Rightarrow>
          if fs w p \<noteq> None then (Some EEXIST, w)
          else (None, w\<lparr>fs := (fs w)(p \<mapsto>
                  \<lparr>st_uid = euid w, st_gid = egid w,
                   st_mode = 0x4000 OR (m AND NOT (umask w)), con = None\<rparr>)\<rparr>))"

text \<open>
  \<^verbatim>\<open>mkdtemp(template)\<close>: the last six characters, which must be \<^verbatim>\<open>XXXXXX\<close>, are replaced
  by a suffix that \<open>tmp_suffix\<close> chooses, and the directory is created with mode 0700.
  The result is the name written into the template, \<open>None\<close> for NULL.  A directory
  that was created is recorded in the trace.
\<close>

definition c_mkdtemp :: "string \<Rightarrow> world \<Rightarrow> string option \<times> world" where
  "c_mkdtemp template w =
     (let name = take (length template - 6) template @ tmp_suffix w template in
      if fails w (Sys_mkdtemp template) \<noteq> None then (None, w)
      else if drop (length template - 6) template \<noteq> ''XXXXXX'' then (None, w)
      else if fs w name \<noteq> None then (None, w)
      else (Some name,
            call (Call_mkdtemp name)
              (w\<lparr>fs := (fs w)(name \<mapsto>
                 \<lparr>st_uid = euid w, st_gid = egid w, st_mode = 0x41C0, con = None\<rparr>)\<rparr>)))"

text \<open>\<^verbatim>\<open>open(p, O_DIRECTORY | O_RDONLY)\<close>: the descriptor, \<open>None\<close> for a negative one.\<close>

definition c_open_dir :: "string \<Rightarrow> world \<Rightarrow> string option" where
  "c_open_dir p w =
     (if fails w (Sys_open p) \<noteq> None then None
      else case fs w p of
             None \<Rightarrow> None
           | Some i \<Rightarrow> if S_ISDIR (st_mode i) then Some p else None)"

text \<open>\<^verbatim>\<open>fchown\<close>, \<^verbatim>\<open>fchmod\<close> and \<^verbatim>\<open>fsetfilecon\<close>: \<open>True\<close> for success.\<close>

definition c_fchown :: "string \<Rightarrow> uid_t \<Rightarrow> gid_t \<Rightarrow> world \<Rightarrow> bool \<times> world" where
  "c_fchown fd u g w =
     (if fails w (Sys_fchown fd) \<noteq> None then (False, w)
      else case fs w fd of
             None \<Rightarrow> (False, w)
           | Some i \<Rightarrow> (True, w\<lparr>fs := (fs w)(fd \<mapsto> i\<lparr>st_uid := u, st_gid := g\<rparr>)\<rparr>))"

definition c_fchmod :: "string \<Rightarrow> mode_t \<Rightarrow> world \<Rightarrow> bool \<times> world" where
  "c_fchmod fd m w =
     (if fails w (Sys_fchmod fd) \<noteq> None then (False, w)
      else case fs w fd of
             None \<Rightarrow> (False, w)
           | Some i \<Rightarrow>
               (True, w\<lparr>fs := (fs w)(fd \<mapsto>
                  i\<lparr>st_mode := (st_mode i AND 0xF000) OR (m AND 0xFFF)\<rparr>)\<rparr>))"

definition c_fsetfilecon :: "string \<Rightarrow> string \<Rightarrow> world \<Rightarrow> bool \<times> world" where
  "c_fsetfilecon fd c w =
     (if fails w (Sys_fsetfilecon fd) \<noteq> None then (False, w)
      else case fs w fd of
             None \<Rightarrow> (False, w)
           | Some i \<Rightarrow> (True, w\<lparr>fs := (fs w)(fd \<mapsto> i\<lparr>con := Some c\<rparr>)\<rparr>))"

text \<open>\<^verbatim>\<open>rmdir(p)\<close>, whose result the module never reads.\<close>

definition c_rmdir :: "string \<Rightarrow> world \<Rightarrow> world" where
  "c_rmdir p w = (if fails w (Sys_rmdir p) \<noteq> None then w else w\<lparr>fs := (fs w)(p := None)\<rparr>)"

text \<open>
  \<^verbatim>\<open>mount(src, tgt, ...)\<close>, \<open>True\<close> for success.  The target must exist (\<^verbatim>\<open>ENOENT\<close>).  A
  bind mount (\<open>bind\<close> true) needs its source to exist (\<^verbatim>\<open>ENOENT\<close>), and source and
  target to be both directories or both not (\<^verbatim>\<open>ENOTDIR\<close>); a mount of \<^verbatim>\<open>tmpfs\<close> needs a
  directory as its target (\<^verbatim>\<open>ENOTDIR\<close>).  The module reads the result only.
\<close>

definition c_mount :: "string \<Rightarrow> string \<Rightarrow> bool \<Rightarrow> world \<Rightarrow> bool \<times> world" where
  "c_mount src tgt bind w =
     (let w1 = call (Call_mount src tgt) w in
      if fails w (Sys_mount src tgt) \<noteq> None then (False, w1)
      else case fs w tgt of
             None \<Rightarrow> (False, w1)
           | Some t \<Rightarrow>
               if bind then
                 (case fs w src of
                    None \<Rightarrow> (False, w1)
                  | Some s \<Rightarrow>
                      if S_ISDIR (st_mode s) = S_ISDIR (st_mode t)
                      then (True, w1\<lparr>mounts := (src, tgt) # mounts w1\<rparr>)
                      else (False, w1))
               else if S_ISDIR (st_mode t)
               then (True, w1\<lparr>mounts := (src, tgt) # mounts w1\<rparr>)
               else (False, w1))"

text \<open>The mount table without the newest mount on a target.\<close>

fun remove_mount :: "string \<Rightarrow> (string \<times> string) list \<Rightarrow> (string \<times> string) list" where
  "remove_mount tgt [] = []"
| "remove_mount tgt (m # ms) = (if snd m = tgt then ms else m # remove_mount tgt ms)"

text \<open>
  \<^verbatim>\<open>umount(tgt)\<close>: \<open>None\<close> for success; \<^verbatim>\<open>ENOENT\<close> when the target does not exist, and
  \<^verbatim>\<open>EINVAL\<close> when it exists and nothing is mounted on it.
\<close>

definition c_umount :: "string \<Rightarrow> world \<Rightarrow> errno option \<times> world" where
  "c_umount tgt w =
     (let w1 = call (Call_umount tgt) w in
      case fails w (Sys_umount tgt) of
        Some e \<Rightarrow> (Some e, w1)
      | None \<Rightarrow>
          if fs w tgt = None then (Some ENOENT, w1)
          else if tgt \<in> snd ` set (mounts w)
          then (None, w1\<lparr>mounts := remove_mount tgt (mounts w1)\<rparr>)
          else (Some EINVAL, w1))"

text \<open>\<^verbatim>\<open>unshare(CLONE_NEWNS)\<close>: \<open>True\<close> for success.\<close>

definition c_unshare :: "world \<Rightarrow> bool \<times> world" where
  "c_unshare w = (fails w Sys_unshare = None, call Call_unshare w)"

definition c_getcwd :: "world \<Rightarrow> string option" where
  "c_getcwd w = (if fails w Sys_getcwd \<noteq> None then None else Some (cwd w))"

text \<open>\<^verbatim>\<open>chdir(p)\<close>: \<open>True\<close> for success, which needs \<open>p\<close> to be a directory.\<close>

definition c_chdir :: "string \<Rightarrow> world \<Rightarrow> bool \<times> world" where
  "c_chdir p w =
     (if fails w (Sys_chdir p) \<noteq> None then (False, w)
      else case fs w p of
             None \<Rightarrow> (False, w)
           | Some i \<Rightarrow> if S_ISDIR (st_mode i) then (True, w\<lparr>cwd := p\<rparr>) else (False, w))"

text \<open>
  What \<^verbatim>\<open>/bin/rm -rf p\<close> does when it ends with status 0: \<open>p\<close> and everything below it
  are gone.  What any other run of a program does (the init script of the
  administrator, or an \<^verbatim>\<open>rm\<close> that ends otherwise) is what \<open>prog_effect\<close> says.  The
  list \<open>argv\<close> is the path of the program followed by its argument vector.
\<close>

definition rm_rf :: "string \<Rightarrow> world \<Rightarrow> world" where
  "rm_rf p w =
     w\<lparr>fs := (\<lambda>q. if q = p \<or> take (length p + 1) q = p @ ''/'' then None else fs w q)\<rparr>"

definition run_prog :: "string list \<Rightarrow> world \<Rightarrow> world" where
  "run_prog argv w =
     (if take 3 argv = [''/bin/rm'', ''/bin/rm'', ''-rf''] \<and> length argv = 4
         \<and> prog_status w argv = Exited 0
      then rm_rf (argv ! 3) w
      else w\<lparr>fs := fst (prog_effect w argv (fs w, mounts w)),
             mounts := snd (prog_effect w argv (fs w, mounts w))\<rparr>)"

text \<open>
  The child between \<^verbatim>\<open>fork\<close> and its end, as both \<^verbatim>\<open>inst_init\<close> and \<^verbatim>\<open>cleanup_tmpdirs\<close>
  write it: \<^verbatim>\<open>exit(1)\<close> when \<^verbatim>\<open>setexeccon\<close> or \<^verbatim>\<open>execl\<close> fails, the program's own end
  otherwise.  The result is the status that \<^verbatim>\<open>waitpid\<close> will report.
\<close>

definition child :: "instance_data \<Rightarrow> string list \<Rightarrow> world \<Rightarrow> wstatus \<times> world" where
  "child idata argv w =
     (if PAMNS_SELINUX_ENABLED \<in> flags idata \<and> fails w Sys_setexeccon \<noteq> None
      then (Exited 1, w)
      else if fails w (Sys_execl (hd argv)) \<noteq> None
      then (Exited 1, call (Call_exec argv) w)
      else (prog_status w argv, run_prog argv (call (Call_exec argv) w)))"

definition WIFEXITED :: "wstatus \<Rightarrow> bool" where
  "WIFEXITED s = (case s of Exited _ \<Rightarrow> True | Signaled _ \<Rightarrow> False)"

definition WIFSIGNALED :: "wstatus \<Rightarrow> bool" where
  "WIFSIGNALED s = (case s of Exited _ \<Rightarrow> False | Signaled _ \<Rightarrow> True)"

subsection \<open>libpam\<close>

datatype pam_item = PAM_USER | PAM_RUSER

text \<open>\<^verbatim>\<open>pam_get_item\<close>: the return code and the item, \<open>None\<close> for NULL.\<close>

definition pam_get_item :: "pam_item \<Rightarrow> world \<Rightarrow> int \<times> string option" where
  "pam_get_item item w =
     (if fails w Sys_pam_get_item \<noteq> None then (PAM_SYSTEM_ERR, None)
      else (PAM_SUCCESS, case item of PAM_USER \<Rightarrow> pam_user w | PAM_RUSER \<Rightarrow> pam_ruser w))"

text \<open>
  The slot \<^verbatim>\<open>NAMESPACE_POLYDIR_DATA\<close> is \<open>pam_data\<close>: \<open>None\<close> when the handle has no such
  entry, and the empty list for an entry whose data pointer is NULL.  \<^verbatim>\<open>pam_set_data\<close>
  replaces the data of an entry that exists, and allocates a new entry otherwise; the
  call of the old entry's cleanup function is not modelled.
\<close>

definition pam_set_data :: "polydir_s list \<Rightarrow> world \<Rightarrow> int \<times> world" where
  "pam_set_data d w =
     (case pam_data w of
        Some old \<Rightarrow> (PAM_SUCCESS, w\<lparr>pam_data := Some d\<rparr>)
      | None \<Rightarrow>
          if fails w Sys_malloc \<noteq> None then (PAM_BUF_ERR, w)
          else (PAM_SUCCESS, w\<lparr>pam_data := Some d\<rparr>))"

definition pam_get_data :: "world \<Rightarrow> int \<times> polydir_s list" where
  "pam_get_data w =
     (case pam_data w of None \<Rightarrow> (PAM_NO_MODULE_DATA, []) | Some d \<Rightarrow> (PAM_SUCCESS, d))"

subsection \<open>Init hook runner\<close>

text \<open>
  Lines 773 to 813 of \<^verbatim>\<open>inst_init\<close>, between the two calls of \<^verbatim>\<open>signal\<close>: the return
  code at the label \<^verbatim>\<open>out\<close>.  \<^verbatim>\<open>waitpid\<close> is called again while it is interrupted; it
  fails when it returns \<open>-1\<close> for another reason.
\<close>

definition run_init_script ::
  "consts_h \<Rightarrow> polydir_s \<Rightarrow> string \<Rightarrow> instance_data \<Rightarrow> int \<Rightarrow> world \<Rightarrow> int \<times> world" where
  "run_init_script K polyptr ipath idata newdir w =
     (if access_F_OK (NAMESPACE_INIT_SCRIPT K) w then
        (if \<not> access_X_OK (NAMESPACE_INIT_SCRIPT K) w then
           (PAM_SESSION_ERR,
            if PAMNS_DEBUG \<in> flags idata
            then pam_syslog LOG_ERR ''Namespace init script not executable'' w else w)
         else if fails w Sys_fork \<noteq> None then
           (PAM_SESSION_ERR,
            pam_syslog LOG_ERR ''Cannot fork to run namespace init script, %m'' w)
         else
           (case child idata
                   [NAMESPACE_INIT_SCRIPT K, NAMESPACE_INIT_SCRIPT K, dir polyptr, ipath,
                    if newdir \<noteq> 0 then ''1'' else ''0'', user idata] w of
              (status, w1) \<Rightarrow>
                if fails w1 Sys_waitpid \<noteq> None
                then (PAM_SESSION_ERR, pam_syslog LOG_ERR ''waitpid failed- %m'' w1)
                else if \<not> WIFEXITED status \<or> WIFSIGNALED status
                then (PAM_SESSION_ERR, pam_syslog LOG_ERR ''Error initializing instance'' w1)
                else (PAM_SUCCESS, w1)))
      else (PAM_SUCCESS, w))"

text \<open>\<^verbatim>\<open>inst_init\<close>.\<close>

definition inst_init ::
  "consts_h \<Rightarrow> polydir_s \<Rightarrow> string \<Rightarrow> instance_data \<Rightarrow> int \<Rightarrow> world \<Rightarrow> int \<times> world" where
  "inst_init K polyptr ipath idata newdir w =
     (case c_signal (Some SIG_DFL) w of
        (osighand, w1) \<Rightarrow>
          if osighand = None
          then (PAM_SESSION_ERR,
                snd (c_signal osighand (pam_syslog LOG_ERR ''Cannot set signal value'' w1)))
          else (case run_init_script K polyptr ipath idata newdir w1 of
                  (rc, w2) \<Rightarrow> (rc, snd (c_signal osighand w2))))"

subsection \<open>Directory materializer\<close>

text \<open>\<^verbatim>\<open>check_inst_parent\<close>.\<close>

definition check_inst_parent :: "string \<Rightarrow> instance_data \<Rightarrow> world \<Rightarrow> int \<times> world" where
  "check_inst_parent ipath idata w =
     (if fails w Sys_malloc \<noteq> None
      then (PAM_SESSION_ERR, pam_syslog LOG_ERR ''Error allocating pathname string'' w)
      else
        (let inst_parent = cut_at_last (CHR ''/'') ipath in
         case c_stat inst_parent w of
           None \<Rightarrow> (PAM_SESSION_ERR, pam_syslog LOG_ERR ''Error stating %s, %m'' w)
         | Some instpbuf \<Rightarrow>
             if \<not> S_ISDIR (st_mode instpbuf)
             then (PAM_SESSION_ERR, pam_syslog LOG_ERR ''Instance parent %s is not a dir'' w)
             else if PAMNS_IGN_INST_PARENT_MODE \<notin> flags idata
                     \<and> st_mode instpbuf AND 0x1FF \<noteq> 0
             then (PAM_SESSION_ERR, pam_syslog LOG_ERR ''Mode of inst parent %s not 000'' w)
             else (PAM_SUCCESS, w)))"

text \<open>
  Lines 897 to 918 of \<^verbatim>\<open>create_dirs\<close>: the label of the new directory, when SELinux is
  enabled.  \<open>True\<close> when no call failed.
\<close>

definition label_new_dir ::
  "string \<Rightarrow> string option \<Rightarrow> string option \<Rightarrow> instance_data \<Rightarrow> world \<Rightarrow> bool \<times> world" where
  "label_new_dir fd icontext ocontext idata w =
     (if PAMNS_SELINUX_ENABLED \<in> flags idata then
        (case icontext of
           Some ic \<Rightarrow> c_fsetfilecon fd ic w
         | None \<Rightarrow> (case ocontext of None \<Rightarrow> (False, w) | Some oc \<Rightarrow> c_fsetfilecon fd oc w))
      else (True, w))"

text \<open>
  Lines 889 to 955 of \<^verbatim>\<open>create_dirs\<close>: the directory \<open>ipath\<close> has just been created
  (\<^verbatim>\<open>newdir = 1\<close>); \<open>statbuf\<close> is what \<^verbatim>\<open>stat\<close> said of the directory to polyinstantiate.
\<close>

definition new_instance_dir ::
  "consts_h \<Rightarrow> polydir_s \<Rightarrow> string \<Rightarrow> string option \<Rightarrow> string option \<Rightarrow> inode \<Rightarrow>
     instance_data \<Rightarrow> world \<Rightarrow> int \<times> world" where
  "new_instance_dir K polyptr ipath icontext ocontext statbuf idata w =
     (case c_open_dir ipath w of
        None \<Rightarrow> (PAM_SESSION_ERR, c_rmdir ipath (pam_syslog LOG_ERR ''Error opening %s, %m'' w))
      | Some fd \<Rightarrow>
          (case label_new_dir fd icontext ocontext idata w of
             (False, w1) \<Rightarrow>
               (PAM_SESSION_ERR,
                c_rmdir ipath (pam_syslog LOG_ERR ''Error setting context of %s to %s'' w1))
           | (True, w1) \<Rightarrow>
               (case c_fstat fd w1 of
                  None \<Rightarrow>
                    (PAM_SESSION_ERR,
                     c_rmdir ipath (pam_syslog LOG_ERR ''Error stating %s, %m'' w1))
                | Some newstatbuf \<Rightarrow>
                    (case (if st_uid newstatbuf \<noteq> st_uid statbuf
                              \<or> st_gid newstatbuf \<noteq> st_gid statbuf
                           then c_fchown fd (st_uid statbuf) (st_gid statbuf) w1
                           else (True, w1)) of
                       (False, w2) \<Rightarrow>
                         (PAM_SESSION_ERR,
                          c_rmdir ipath
                            (pam_syslog LOG_ERR ''Error changing owner for %s, %m'' w2))
                     | (True, w2) \<Rightarrow>
                         (case c_fchmod fd (st_mode statbuf AND 0xFFF) w2 of
                            (False, w3) \<Rightarrow>
                              (PAM_SESSION_ERR,
                               c_rmdir ipath
                                 (pam_syslog LOG_ERR ''Error changing mode for %s, %m'' w3))
                          | (True, w3) \<Rightarrow> inst_init K polyptr ipath idata 1 w3)))))"

text \<open>
  \<^verbatim>\<open>create_dirs\<close>: the return code, the rule (whose \<open>method\<close> and \<open>instance_prefix\<close> the
  function may write), the buffer \<open>ipath\<close> (which it writes for the method \<^verbatim>\<open>TMPDIR\<close>), and
  the world.  \<^verbatim>\<open>S_IRUSR\<close> is \<open>0x100\<close>.
\<close>

definition create_dirs ::
  "consts_h \<Rightarrow> polydir_s \<Rightarrow> string \<Rightarrow> string option \<Rightarrow> string option \<Rightarrow> instance_data \<Rightarrow>
     world \<Rightarrow> int \<times> polydir_s \<times> string \<times> world" where
  "create_dirs K polyptr ipath icontext ocontext idata w =
     (case c_stat (dir polyptr) w of
        None \<Rightarrow> (PAM_SESSION_ERR, polyptr, ipath, pam_syslog LOG_ERR ''Error stating %s, %m'' w)
      | Some statbuf \<Rightarrow>
          if \<not> S_ISDIR (st_mode statbuf)
          then (PAM_SESSION_ERR, polyptr, ipath,
                pam_syslog LOG_ERR ''poly dir %s is not a dir'' w)
          else
            (case check_inst_parent ipath idata w of
               (rc, w1) \<Rightarrow>
                 if rc \<noteq> 0 then (PAM_SESSION_ERR, polyptr, ipath, w1)
                 else if method polyptr = TMPDIR then
                   (case c_mkdtemp (instance_prefix polyptr) w1 of
                      (None, w2) \<Rightarrow>
                        (PAM_SESSION_ERR, polyptr\<lparr>method := NONE\<rparr>, ipath,
                         pam_syslog LOG_ERR ''Error creating temporary instance %s, %m'' w2)
                    | (Some name, w2) \<Rightarrow>
                        (case new_instance_dir K (polyptr\<lparr>instance_prefix := name\<rparr>) name
                                icontext ocontext statbuf idata w2 of
                           (rc2, w3) \<Rightarrow> (rc2, polyptr\<lparr>instance_prefix := name\<rparr>, name, w3)))
                 else
                   (case c_mkdir ipath 0x100 w1 of
                      (Some e, w2) \<Rightarrow>
                        if e = EEXIST
                        then (case inst_init K polyptr ipath idata 0 w2 of
                                (rc2, w3) \<Rightarrow> (rc2, polyptr, ipath, w3))
                        else (PAM_SESSION_ERR, polyptr, ipath,
                              pam_syslog LOG_ERR ''Error creating %s, %m'' w2)
                    | (None, w2) \<Rightarrow>
                        (case new_instance_dir K polyptr ipath icontext ocontext statbuf idata w2 of
                           (rc2, w3) \<Rightarrow> (rc2, polyptr, ipath, w3)))))"

text \<open>
  \<^verbatim>\<open>ns_setup\<close>: the return code, the rule as \<^verbatim>\<open>create_dirs\<close> left it, and the world.  The
  return code of \<^verbatim>\<open>create_dirs\<close> is compared with 0 by \<^verbatim>\<open>retval < 0\<close>, as in the source.
\<close>

definition ns_setup ::
  "consts_h \<Rightarrow> polydir_s \<Rightarrow> instance_data \<Rightarrow> world \<Rightarrow> int \<times> polydir_s \<times> world" where
  "ns_setup K polyptr idata w =
     (if method polyptr = TMPFS then
        (case c_mount ''tmpfs'' (dir polyptr) False w of
           (False, w1) \<Rightarrow>
             (PAM_SESSION_ERR, polyptr, pam_syslog LOG_ERR ''Error mounting tmpfs on %s, %m'' w1)
         | (True, w1) \<Rightarrow>
             (case inst_init K polyptr ''tmpfs'' idata 1 w1 of (rc, w2) \<Rightarrow> (rc, polyptr, w2)))
      else
        (case poly_name K polyptr idata w of
           (retval, instname, instcontext, origcontext, w1) \<Rightarrow>
             if retval \<noteq> 0
             then (PAM_SESSION_ERR, polyptr, pam_syslog LOG_ERR ''Error getting instance name'' w1)
             else if fails w1 Sys_malloc \<noteq> None then (PAM_SESSION_ERR, polyptr, w1)
             else
               (case create_dirs K polyptr (instance_prefix polyptr @ printf_s instname)
                       instcontext origcontext idata w1 of
                  (retval2, polyptr', inst_dir, w2) \<Rightarrow>
                    if retval2 < 0
                    then (PAM_SESSION_ERR, polyptr',
                          pam_syslog LOG_ERR ''Error creating instance dir'' w2)
                    else
                      (case c_mount inst_dir (dir polyptr') True w2 of
                         (False, w3) \<Rightarrow>
                           (PAM_SESSION_ERR, polyptr',
                            pam_syslog LOG_ERR ''Error mounting %s on %s, %m'' w3)
                       | (True, w3) \<Rightarrow> (retval2, polyptr', w3)))))"

subsection \<open>Namespace orchestrator\<close>

text \<open>
  \<^verbatim>\<open>cwd_in\<close>: \<open>-1\<close> when the working directory cannot be read, 1 when \<open>d\<close> is a prefix of
  it (\<^verbatim>\<open>strncmp(cwd, dir, strlen(dir)) == 0\<close>), 0 otherwise.
\<close>

definition cwd_in :: "string \<Rightarrow> instance_data \<Rightarrow> world \<Rightarrow> int \<times> world" where
  "cwd_in d idata w =
     (case c_getcwd w of
        None \<Rightarrow> (-1, pam_syslog LOG_ERR ''Cannot get current dir, %m'' w)
      | Some c \<Rightarrow> (if take (length d) c = d then 1 else 0, w))"

text \<open>The loop of \<^verbatim>\<open>cleanup_tmpdirs\<close>: the return code at the label \<^verbatim>\<open>out\<close>.\<close>

fun cleanup_loop :: "instance_data \<Rightarrow> polydir_s list \<Rightarrow> world \<Rightarrow> int \<times> world" where
  "cleanup_loop idata [] w = (PAM_SUCCESS, w)"
| "cleanup_loop idata (pptr # rest) w =
     (if method pptr = TMPDIR \<and> access_F_OK (instance_prefix pptr) w then
        (if fails w Sys_fork \<noteq> None then
           (PAM_SESSION_ERR,
            pam_syslog LOG_ERR ''Cannot fork to run namespace init script, %m'' w)
         else
           (case child idata [''/bin/rm'', ''/bin/rm'', ''-rf'', instance_prefix pptr] w of
              (status, w1) \<Rightarrow>
                if fails w1 Sys_waitpid \<noteq> None
                then (PAM_SESSION_ERR, pam_syslog LOG_ERR ''waitpid failed- %m'' w1)
                else if \<not> WIFEXITED status \<or> WIFSIGNALED status
                then cleanup_loop idata rest (pam_syslog LOG_ERR ''Error removing %s'' w1)
                else cleanup_loop idata rest w1))
      else cleanup_loop idata rest w)"

text \<open>\<^verbatim>\<open>cleanup_tmpdirs\<close>.\<close>

definition cleanup_tmpdirs :: "instance_data \<Rightarrow> world \<Rightarrow> int \<times> world" where
  "cleanup_tmpdirs idata w =
     (case c_signal (Some SIG_DFL) w of
        (osighand, w1) \<Rightarrow>
          if osighand = None
          then (PAM_SESSION_ERR,
                snd (c_signal osighand (pam_syslog LOG_ERR ''Cannot set signal value'' w1)))
          else (case cleanup_loop idata (polydirs_ptr idata) w1 of
                  (rc, w2) \<Rightarrow> (rc, snd (c_signal osighand w2))))"

text \<open>
  Lines 1166 to 1177 of \<^verbatim>\<open>setup_namespace\<close>: the uid \<^verbatim>\<open>req_uid\<close>.  \<^verbatim>\<open>getuid()\<close> is the real
  uid of the process, \<open>ruid\<close>.
\<close>

definition req_uid :: "world \<Rightarrow> uid_t" where
  "req_uid w =
     (case pam_get_item PAM_RUSER w of
        (retval, ruser_name) \<Rightarrow>
          (case ruser_name of
             None \<Rightarrow> ruid w
           | Some name \<Rightarrow>
               if retval \<noteq> PAM_SUCCESS then ruid w
               else (case getpwnam w name of Some pwd \<Rightarrow> pw_uid pwd | None \<Rightarrow> ruid w)))"

text \<open>Lines 1183 to 1207: the first loop over the rules, which sets \<^verbatim>\<open>need_poly\<close>.\<close>

fun need_poly :: "instance_data \<Rightarrow> unmnt_op \<Rightarrow> uid_t \<Rightarrow> polydir_s list \<Rightarrow> int" where
  "need_poly idata unmnt req [] = 0"
| "need_poly idata unmnt req (pptr # rest) =
     (if ns_override pptr idata (uid_sess idata) \<noteq> 0 then
        (if unmnt = NO_UNMNT \<or> ns_override pptr idata req \<noteq> 0
         then need_poly idata unmnt req rest
         else 1)
      else 1)"

text \<open>
  Lines 1268 to 1278: the working directory moves to the parent of the mount point; a
  failure of \<^verbatim>\<open>chdir\<close> is reported and nothing else.
\<close>

definition poly_parent :: "string \<Rightarrow> string" where
  "poly_parent d =
     (if CHR ''/'' \<in> set d \<and> length (takeWhile (\<lambda>c. c \<noteq> CHR ''/'') d)
                                = length (cut_at_last (CHR ''/'') d)
      then ''/''
      else cut_at_last (CHR ''/'') d)"

definition chdir_to_parent :: "polydir_s \<Rightarrow> world \<Rightarrow> world" where
  "chdir_to_parent pptr w =
     (case c_chdir (poly_parent (dir pptr)) w of
        (False, w1) \<Rightarrow> pam_syslog LOG_ERR ''Cannot chdir to %s, %m'' w1
      | (True, w1) \<Rightarrow> w1)"

text \<open>
  Lines 1249 to 1292, the unmount of one rule's directory: \<open>False\<close> for \<^verbatim>\<open>goto out\<close> with
  \<^verbatim>\<open>retval = PAM_SESSION_ERR\<close>.
\<close>

definition unmount_dir :: "polydir_s \<Rightarrow> instance_data \<Rightarrow> world \<Rightarrow> bool \<times> world" where
  "unmount_dir pptr idata w =
     (case cwd_in (dir pptr) idata w of
        (changing_dir, w1) \<Rightarrow>
          if changing_dir < 0 then (False, w1)
          else
            (let w2 = (if changing_dir \<noteq> 0 then chdir_to_parent pptr w1 else w1) in
             case c_umount (dir pptr) w2 of
               (Some e, w3) \<Rightarrow>
                 (e = EINVAL, pam_syslog LOG_ERR ''Unmount of %s failed, %m'' w3)
             | (None, w3) \<Rightarrow> (True, w3)))"

text \<open>
  Lines 1236 to 1298, the body of the second loop for one rule: whether the loop is left
  (by \<^verbatim>\<open>break\<close> or \<^verbatim>\<open>goto out\<close>), the value of \<^verbatim>\<open>retval\<close>, the rule, the world.
\<close>

definition setup_dir ::
  "consts_h \<Rightarrow> instance_data \<Rightarrow> unmnt_op \<Rightarrow> uid_t \<Rightarrow> int \<Rightarrow> polydir_s \<Rightarrow> world \<Rightarrow>
     bool \<times> int \<times> polydir_s \<times> world" where
  "setup_dir K idata unmnt req retval pptr w =
     (if ns_override pptr idata (uid_sess idata) \<noteq> 0
         \<and> (unmnt = NO_UNMNT \<or> ns_override pptr idata req \<noteq> 0)
      then (False, retval, pptr, w)
      else
        (let dir_unmnt =
               (if ns_override pptr idata (uid_sess idata) \<noteq> 0 then UNMNT_ONLY else unmnt)
         in case (if dir_unmnt = UNMNT_REMNT \<or> dir_unmnt = UNMNT_ONLY
                  then unmount_dir pptr idata w else (True, w)) of
              (False, w1) \<Rightarrow> (True, PAM_SESSION_ERR, pptr, w1)
            | (True, w1) \<Rightarrow>
                if dir_unmnt \<noteq> UNMNT_ONLY then
                  (case ns_setup K pptr idata w1 of
                     (rv, pptr', w2) \<Rightarrow> (rv \<noteq> PAM_SUCCESS, rv, pptr', w2))
                else (False, retval, pptr, w1)))"

text \<open>Lines 1235 to 1299: the second loop; the rules come back as the loop left them.\<close>

fun setup_loop ::
  "consts_h \<Rightarrow> instance_data \<Rightarrow> unmnt_op \<Rightarrow> uid_t \<Rightarrow> int \<Rightarrow> polydir_s list \<Rightarrow> world \<Rightarrow>
     int \<times> polydir_s list \<times> world" where
  "setup_loop K idata unmnt req retval [] w = (retval, [], w)"
| "setup_loop K idata unmnt req retval (pptr # rest) w =
     (case setup_dir K idata unmnt req retval pptr w of
        (leave, rv, pptr', w1) \<Rightarrow>
          if leave then (rv, pptr' # rest, w1)
          else (case setup_loop K idata unmnt req rv rest w1 of
                  (rv2, rest', w2) \<Rightarrow> (rv2, pptr' # rest', w2)))"

text \<open>
  \<^verbatim>\<open>setup_namespace\<close>.  The slot of the PAM handle holds the pointer
  \<^verbatim>\<open>idata->polydirs_ptr\<close>, so what \<^verbatim>\<open>create_dirs\<close> writes into a rule is seen through the
  slot too: after the loop the slot holds the rules as the loop left them.
\<close>

definition setup_namespace ::
  "consts_h \<Rightarrow> instance_data \<Rightarrow> unmnt_op \<Rightarrow> world \<Rightarrow> int \<times> instance_data \<times> world" where
  "setup_namespace K idata unmnt w =
     (if need_poly idata unmnt (req_uid w) (polydirs_ptr idata) \<noteq> 0 then
        (case pam_set_data (polydirs_ptr idata) w of
           (rc, w1) \<Rightarrow>
             if rc \<noteq> PAM_SUCCESS
             then (PAM_SYSTEM_ERR, idata, pam_syslog LOG_ERR ''Unable to set namespace data'' w1)
             else
               (case c_unshare w1 of
                  (False, w2) \<Rightarrow>
                    (PAM_SESSION_ERR, idata,
                     pam_syslog LOG_ERR ''Unable to unshare from parent namespace, %m''
                       (snd (pam_set_data [] w2)))
                | (True, w2) \<Rightarrow>
                    (case setup_loop K idata unmnt (req_uid w) PAM_SUCCESS (polydirs_ptr idata) w2 of
                       (retval, rules, w3) \<Rightarrow>
                         (let idata' = idata\<lparr>polydirs_ptr := rules\<rparr>;
                              w4 = w3\<lparr>pam_data := Some rules\<rparr>
                          in if retval \<noteq> PAM_SUCCESS
                             then (retval, idata', snd (cleanup_tmpdirs idata' w4))
                             else (retval, idata', w4)))))
      else (PAM_SUCCESS, idata, del_polydir_list (polydirs_ptr idata) w))"

subsection \<open>Session teardown\<close>

text \<open>
  Lines 1325 to 1342, the loop of \<^verbatim>\<open>orig_namespace\<close>: \<open>False\<close> for its
  \<^verbatim>\<open>return PAM_SESSION_ERR\<close>, \<open>True\<close> when the loop ends.
\<close>

fun orig_loop :: "instance_data \<Rightarrow> polydir_s list \<Rightarrow> world \<Rightarrow> bool \<times> world" where
  "orig_loop idata [] w = (True, w)"
| "orig_loop idata (pptr # rest) w =
     (if ns_override pptr idata (uid_sess idata) \<noteq> 0 then orig_loop idata rest w
      else (case c_umount (dir pptr) w of
              (Some e, w1) \<Rightarrow> (False, pam_syslog LOG_ERR ''Unmount of %s failed, %m'' w1)
            | (None, w1) \<Rightarrow> orig_loop idata rest w1))"

text \<open>\<^verbatim>\<open>orig_namespace\<close>.\<close>

definition orig_namespace :: "instance_data \<Rightarrow> world \<Rightarrow> int \<times> world" where
  "orig_namespace idata w =
     (case orig_loop idata (polydirs_ptr idata) w of
        (False, w1) \<Rightarrow> (PAM_SESSION_ERR, w1)
      | (True, w1) \<Rightarrow> (0, snd (cleanup_tmpdirs idata w1)))"

text \<open>
  \<^verbatim>\<open>ctxt_based_inst_needed\<close>, and the flags that \<^verbatim>\<open>pam_sm_close_session\<close> computes from
  SELinux and from its arguments.
\<close>

definition ctxt_based_inst_needed :: "world \<Rightarrow> bool" where
  "ctxt_based_inst_needed w = (getexeccon w \<noteq> None)"

definition close_flags :: "string list \<Rightarrow> world \<Rightarrow> pamns_flag set" where
  "close_flags argv w =
     (if selinux_enabled w then {PAMNS_SELINUX_ENABLED} else {})
     \<union> (if ctxt_based_inst_needed w then {PAMNS_CTXT_BASED_INST} else {})
     \<union> (if ''debug'' \<in> set argv then {PAMNS_DEBUG} else {})
     \<union> (if ''ignore_config_error'' \<in> set argv then {PAMNS_IGN_CONFIG_ERR} else {})
     \<union> (if ''no_unmount_on_close'' \<in> set argv then {PAMNS_NO_UNMOUNT_ON_CLOSE} else {})"

text \<open>
  The instance data that \<^verbatim>\<open>pam_sm_close_session\<close> fills in.  \<^verbatim>\<open>idata.user\<close> has room for
  \<open>LOGIN_NAME_MAX - 1\<close> characters of the user name.
\<close>

definition close_idata ::
  "consts_h \<Rightarrow> string list \<Rightarrow> string \<Rightarrow> passwd \<Rightarrow> polydir_s list \<Rightarrow> world \<Rightarrow> instance_data" where
  "close_idata K argv user_name pwd polyptr w =
     \<lparr>flags = close_flags argv w, polydirs_ptr = polyptr,
      user = take (LOGIN_NAME_MAX K - 1) user_name, uid_sess = pw_uid pwd\<rparr>"

text \<open>\<^verbatim>\<open>pam_sm_close_session\<close>.\<close>

definition pam_sm_close_session :: "consts_h \<Rightarrow> string list \<Rightarrow> world \<Rightarrow> int \<times> world" where
  "pam_sm_close_session K argv w =
     (if PAMNS_NO_UNMOUNT_ON_CLOSE \<in> close_flags argv w then (PAM_SUCCESS, w)
      else
        (case pam_get_item PAM_USER w of
           (retval, None) \<Rightarrow>
             (PAM_SESSION_ERR, pam_syslog LOG_ERR ''Error recovering pam user name'' w)
         | (retval, Some user_name) \<Rightarrow>
             if retval \<noteq> PAM_SUCCESS
             then (PAM_SESSION_ERR, pam_syslog LOG_ERR ''Error recovering pam user name'' w)
             else
               (case getpwnam w user_name of
                  None \<Rightarrow> (PAM_SESSION_ERR, pam_syslog LOG_ERR ''user unknown %s'' w)
                | Some pwd \<Rightarrow>
                    (case pam_get_data w of
                       (retval2, polyptr) \<Rightarrow>
                         if retval2 \<noteq> PAM_SUCCESS \<or> polyptr = [] then (PAM_SUCCESS, w)
                         else
                           (case orig_namespace (close_idata K argv user_name pwd polyptr w) w of
                              (retval3, w1) \<Rightarrow> (PAM_SUCCESS, snd (pam_set_data [] w1)))))))"

subsection \<open>Sample sessions\<close>

text \<open>
  Concrete inputs for the examples below.  \<open>K0\<close> has the values of a Linux build for
  the constants of the header, and a stand-in for the digest function (the examples do
  not depend on the digest's value, only on its length).
\<close>

definition K0 :: consts_h where
  "K0 = \<lparr>MD5 = (\<lambda>s i. of_nat (length s + i)), NAMESPACE_MAX_DIR_LEN = 80, PATH_MAX = 4096,
         LOGIN_NAME_MAX = 256, NAMESPACE_INIT_SCRIPT = ''/etc/security/namespace.init'',
         PAM_NAMESPACE_CONFIG = ''/etc/security/namespace.conf''\<rparr>"

text \<open>
  A session opened for \<open>alice\<close> (uid 1000) by a process of root: \<open>/tmp\<close> is a directory
  of root with mode 1777, \<open>/tmp-inst\<close> a directory of root with mode 000, no init script,
  nothing mounted, no call fails, and a program that is run changes neither the file
  system nor the mount table, unless it is a successful \<^verbatim>\<open>rm\<close>.
\<close>

definition dir_inode :: "uid_t \<Rightarrow> gid_t \<Rightarrow> mode_t \<Rightarrow> inode" where
  "dir_inode u g m = \<lparr>st_uid = u, st_gid = g, st_mode = 0x4000 OR m, con = None\<rparr>"

definition fs0 :: "string \<rightharpoonup> inode" where
  "fs0 = [''/'' \<mapsto> dir_inode 0 0 0x1ED, ''/tmp'' \<mapsto> dir_inode 0 0 0x3FF,
          ''/var/tmp'' \<mapsto> dir_inode 0 0 0x3FF, ''/tmp-inst'' \<mapsto> dir_inode 0 0 0]"

definition passwd0 :: "string \<rightharpoonup> passwd" where
  "passwd0 = [''root'' \<mapsto> \<lparr>pw_uid = 0, pw_dir = ''/root''\<rparr>,
              ''alice'' \<mapsto> \<lparr>pw_uid = 1000, pw_dir = ''/home/alice''\<rparr>]"

definition world0 :: world where
  "world0 = \<lparr>fails = (\<lambda>_. None), fs = fs0, xperm = (\<lambda>_. False), mounts = [], cwd = ''/'',
             ruid = 0, euid = 0, egid = 0, umask = 0x12, sigchld = SIG_IGN,
             tmp_suffix = (\<lambda>_. ''Ab3dE9''), prog_status = (\<lambda>_. Exited 0),
             prog_effect = (\<lambda>_ x. x),
             getpwnam = passwd0, pam_user = Some ''alice'', pam_ruser = None,
             pam_data = None, conf_lines = [], selinux_enabled = False, execcon = None,
             compute_member = (\<lambda>_ _. None), context_ok = (\<lambda>_. False),
             context_with_range = (\<lambda>_ _. None), trans_to_raw = (\<lambda>_. None), trace = []\<rparr>"

definition idata0 :: instance_data where
  "idata0 = \<lparr>flags = {}, polydirs_ptr = [], user = ''alice'', uid_sess = 1000\<rparr>"

text \<open>The rule of the line \<^verbatim>\<open>/tmp /tmp-inst/ user root\<close>, and rules of the other methods.\<close>

definition rule_user :: polydir_s where
  "rule_user = \<lparr>dir = ''/tmp'', instance_prefix = ''/tmp-inst/'', method = USER,
                num_uids = 1, uid = [0], exclusive = 0\<rparr>"

definition rule_tmpdir :: polydir_s where
  "rule_tmpdir = \<lparr>dir = ''/var/tmp'', instance_prefix = ''/tmp-inst/vt.XXXXXX'', method = TMPDIR,
                  num_uids = 0, uid = [], exclusive = 0\<rparr>"

text \<open>A rule that both root and alice are exempt from.\<close>

definition rule_skip :: polydir_s where
  "rule_skip = \<lparr>dir = ''/tmp'', instance_prefix = ''/tmp-inst/'', method = USER,
                num_uids = 2, uid = [0, 1000], exclusive = 0\<rparr>"

text \<open>The same world with an init script that root may execute and that ends with status 1.\<close>

definition world_init_fails :: world where
  "world_init_fails =
     world0\<lparr>fs := fs0(''/etc/security/namespace.init'' \<mapsto>
                \<lparr>st_uid = 0, st_gid = 0, st_mode = 0x81ED, con = None\<rparr>),
            xperm := (\<lambda>p. p = ''/etc/security/namespace.init''),
            prog_status := (\<lambda>_. Exited 1)\<rparr>"

text \<open>
  A session to close: the temporary instance of \<open>/var/tmp\<close> and alice's instance of
  \<open>/tmp\<close> are mounted, the slot holds the two rules, and \<open>/var/tmp\<close> is busy.
\<close>

definition rule_tmpdir_made :: polydir_s where
  "rule_tmpdir_made = rule_tmpdir\<lparr>instance_prefix := ''/tmp-inst/vt.Ab3dE9''\<rparr>"

definition world_busy :: world where
  "world_busy =
     world0\<lparr>fs := fs0(''/tmp-inst/vt.Ab3dE9'' \<mapsto> dir_inode 0 0 0x3FF,
                       ''/tmp-inst/alice'' \<mapsto> dir_inode 0 0 0x3FF),
            mounts := [(''/tmp-inst/vt.Ab3dE9'', ''/var/tmp''), (''/tmp-inst/alice'', ''/tmp'')],
            pam_data := Some [rule_tmpdir_made, rule_user],
            fails := (\<lambda>c. if c = Sys_umount ''/var/tmp'' then Some EBUSY else None)\<rparr>"

text \<open>The characters of a digest in hexadecimal.\<close>

definition hexchars :: "char set" where
  "hexchars = set ''0123456789abcdef''"

text \<open>
  The session of alice with the argument \<^verbatim>\<open>gen_hash\<close>, and a session of a user whose
  name has 100 characters.
\<close>

definition idata_gen_hash :: instance_data where
  "idata_gen_hash = idata0\<lparr>flags := {PAMNS_GEN_HASH}\<rparr>"

definition idata_long :: instance_data where
  "idata_long = idata0\<lparr>user := replicate 100 (CHR ''a'')\<rparr>"

text \<open>
  The same world in which alice's instance of \<open>/tmp\<close> exists already, as a directory of
  alice with mode 700.
\<close>

definition world_reuse :: world where
  "world_reuse = world0\<lparr>fs := fs0(''/tmp-inst/alice'' \<mapsto> dir_inode 1000 1000 0x1C0)\<rparr>"

subsection \<open>The invariant of a rule\<close>

text \<open>
  The invariant of a rule as the specification words it: the directory is an absolute
  path with no \<^verbatim>\<open>..\<close> in it, the instance prefix has no \<^verbatim>\<open>..\<close> in it and is absolute
  unless the method is \<^verbatim>\<open>TMPFS\<close>, and the method is not \<^verbatim>\<open>NONE\<close>.  \<open>has_sub n s\<close> says
  that \<open>n\<close> occurs in \<open>s\<close>.
\<close>

definition has_sub :: "string \<Rightarrow> string \<Rightarrow> bool" where
  "has_sub n s = (\<exists>a b. s = a @ n @ b)"

definition rule_invariant :: "polydir_s \<Rightarrow> bool" where
  "rule_invariant p =
     ((\<exists>t. dir p = CHR ''/'' # t) \<and> \<not> has_sub ''..'' (dir p) \<and>
      \<not> has_sub ''..'' (instance_prefix p) \<and>
      (method p \<noteq> TMPFS \<longrightarrow> (\<exists>t. instance_prefix p = CHR ''/'' # t)) \<and>
      method p \<noteq> NONE)"

text \<open>
  A configuration file of three lines and the rule of its third line for alice; a rule
  with a relative directory, and a world in which that directory exists.
\<close>

definition world_conf :: world where
  "world_conf = world0\<lparr>conf_lines :=
     [''# polyinstantiated directories'' @ [CHR 0x0A],
      ''/tmp /tmp-inst/ user root'' @ [CHR 0x0A],
      ''$HOME  $HOME/$USER.inst/ tmpdir ~root,bob # not for everyone'' @ [CHR 0x0A]]\<rparr>"

definition rule_home :: polydir_s where
  "rule_home = \<lparr>dir = ''/home/alice'', instance_prefix = ''/home/alice/alice.inst/XXXXXX'',
                method = TMPDIR, num_uids = 1, uid = [0], exclusive = 1\<rparr>"

definition rule_relative :: polydir_s where
  "rule_relative = \<lparr>dir = ''../tmp'', instance_prefix = ''inst/'', method = USER,
                    num_uids = 0, uid = [], exclusive = 0\<rparr>"

definition world_relative :: world where
  "world_relative = world0\<lparr>fs := [''../tmp'' \<mapsto> dir_inode 0 0 0x3FF, ''inst'' \<mapsto> dir_inode 0 0 0]\<rparr>"

text \<open>
  A session with four rules in which the third fails: the bind mount of the temporary
  instance of \<open>/opt\<close> is refused.
\<close>

definition rule_opt :: polydir_s where
  "rule_opt = \<lparr>dir = ''/opt'', instance_prefix = ''/tmp-inst/opt.XXXXXX'', method = TMPDIR,
               num_uids = 0, uid = [], exclusive = 0\<rparr>"

definition rule_srv :: polydir_s where
  "rule_srv = \<lparr>dir = ''/srv'', instance_prefix = ''/tmp-inst/srv-'', method = USER,
               num_uids = 0, uid = [], exclusive = 0\<rparr>"

definition idata4 :: instance_data where
  "idata4 = idata0\<lparr>polydirs_ptr := [rule_user, rule_tmpdir, rule_opt, rule_srv]\<rparr>"

definition world4 :: world where
  "world4 = world0\<lparr>fs := fs0(''/opt'' \<mapsto> dir_inode 0 0 0x1ED, ''/srv'' \<mapsto> dir_inode 0 0 0x1ED),
                   fails := (\<lambda>c. if c = Sys_mount ''/tmp-inst/opt.Ab3dE9'' ''/opt''
                                  then Some EPERM else None)\<rparr>"

subsection \<open>Programs and temporary directories\<close>

text \<open>
  Two conditions on what the programs that are run do: \<open>keeps_mounts e\<close> says that no
  run changes the mount table, \<open>keeps_path e q\<close> that no run changes what the path \<open>q\<close>
  shows.  \<open>made w\<close> is the set of the directories that \<^verbatim>\<open>mkdtemp\<close> has created, as the
  trace has them.
\<close>

definition keeps_mounts ::
  "(string list \<Rightarrow> (string \<rightharpoonup> inode) \<times> (string \<times> string) list
      \<Rightarrow> (string \<rightharpoonup> inode) \<times> (string \<times> string) list) \<Rightarrow> bool" where
  "keeps_mounts e = (\<forall>argv x. snd (e argv x) = snd x)"

definition keeps_path ::
  "(string list \<Rightarrow> (string \<rightharpoonup> inode) \<times> (string \<times> string) list
      \<Rightarrow> (string \<rightharpoonup> inode) \<times> (string \<times> string) list) \<Rightarrow> string \<Rightarrow> bool" where
  "keeps_path e q = (\<forall>argv x. fst (e argv x) q = fst x q)"

definition made :: "world \<Rightarrow> string set" where
  "made w = {n. Call_mkdtemp n \<in> set (trace w)}"

text \<open>The instance directories that the rules of the method \<^verbatim>\<open>TMPDIR\<close> name.\<close>

definition tmp_instances :: "polydir_s list \<Rightarrow> string set" where
  "tmp_instances ps = instance_prefix ` {p \<in> set ps. method p = TMPDIR}"

text \<open>
  A world in which the setup of a rule for a user meets no obstacle: no call fails,
  SELinux is off and the instance name is the user name as it is, the directory to
  polyinstantiate is a directory, the parent of the instance is a directory of mode 000,
  the instance does not exist yet, and there is no init script.  Nothing is asked of the
  form of the two paths.
\<close>

definition setup_ready :: "consts_h \<Rightarrow> polydir_s \<Rightarrow> instance_data \<Rightarrow> world \<Rightarrow> bool" where
  "setup_ready K p idata w =
     ((\<forall>c. fails w c = None) \<and>
      PAMNS_SELINUX_ENABLED \<notin> flags idata \<and> PAMNS_GEN_HASH \<notin> flags idata \<and>
      length (user idata) \<le> NAMESPACE_MAX_DIR_LEN K \<and>
      (\<exists>sb. fs w (dir p) = Some sb \<and> S_ISDIR (st_mode sb)) \<and>
      (\<exists>ip. fs w (cut_at_last (CHR ''/'') (instance_prefix p @ user idata)) = Some ip \<and>
            S_ISDIR (st_mode ip) \<and> st_mode ip AND 0x1FF = 0) \<and>
      fs w (instance_prefix p @ user idata) = None \<and>
      fs w (NAMESPACE_INIT_SCRIPT K) = None \<and>
      instance_prefix p @ user idata \<noteq> NAMESPACE_INIT_SCRIPT K)"

text \<open>
  Two rules for the same directory, of which the second has an instance parent that does
  not exist; a rule with no method, and the rule of the line \<^verbatim>\<open>/tmp tmpfs tmpfs\<close>.
\<close>

definition rule_nowhere :: polydir_s where
  "rule_nowhere = \<lparr>dir = ''/tmp'', instance_prefix = ''/nowhere/b-'', method = USER,
                   num_uids = 0, uid = [], exclusive = 0\<rparr>"

definition idata_same :: instance_data where
  "idata_same = idata0\<lparr>polydirs_ptr := [rule_user, rule_nowhere]\<rparr>"

definition rule_none :: polydir_s where
  "rule_none = rule_user\<lparr>method := NONE\<rparr>"

definition rule_tmpfs :: polydir_s where
  "rule_tmpfs = \<lparr>dir = ''/tmp'', instance_prefix = ''tmpfs'', method = TMPFS,
                 num_uids = 0, uid = [], exclusive = 0\<rparr>"

section \<open>Properties\<close>

subsection \<open>What each function leaves unchanged\<close>

lemma made_simps [simp]:
  "made (pam_syslog pr m w) = made w"
  "made (call (Call_mkdtemp n) w) = insert n (made w)"
  "made (call Call_unshare w) = made w"
  "made (call (Call_mount a b) w) = made w"
  "made (call (Call_umount a) w) = made w"
  "made (call (Call_exec argv) w) = made w"
  "made (call Call_del_polydir_list w) = made w"
  "made (w\<lparr>fs := f\<rparr>) = made w" "made (w\<lparr>mounts := ms\<rparr>) = made w"
  "made (w\<lparr>sigchld := h\<rparr>) = made w" "made (w\<lparr>cwd := c\<rparr>) = made w"
  "made (w\<lparr>pam_data := d\<rparr>) = made w"
  by (auto simp: made_def pam_syslog_def call_def)

lemma pam_syslog_fields [simp]:
  "mounts (pam_syslog pr m w) = mounts w" "pam_data (pam_syslog pr m w) = pam_data w"
  "fs (pam_syslog pr m w) = fs w" "fails (pam_syslog pr m w) = fails w"
  "prog_status (pam_syslog pr m w) = prog_status w" "xperm (pam_syslog pr m w) = xperm w"
  "prog_effect (pam_syslog pr m w) = prog_effect w"
  "trace (pam_syslog pr m w) = Syslog pr m # trace w"
  by (simp_all add: pam_syslog_def)

lemma call_fields [simp]:
  "mounts (call e w) = mounts w" "pam_data (call e w) = pam_data w"
  "fs (call e w) = fs w" "fails (call e w) = fails w"
  "prog_status (call e w) = prog_status w" "xperm (call e w) = xperm w"
  "prog_effect (call e w) = prog_effect w"
  "trace (call e w) = e # trace w"
  by (simp_all add: call_def)

lemma c_signal_fields [simp]:
  "mounts (snd (c_signal h w)) = mounts w" "pam_data (snd (c_signal h w)) = pam_data w"
  "fs (snd (c_signal h w)) = fs w" "fails (snd (c_signal h w)) = fails w"
  "prog_status (snd (c_signal h w)) = prog_status w" "xperm (snd (c_signal h w)) = xperm w"
  "prog_effect (snd (c_signal h w)) = prog_effect w"
  "trace (snd (c_signal h w)) = trace w" "made (snd (c_signal h w)) = made w"
  by (simp_all add: c_signal_def split: option.splits)

lemma rm_rf_fields [simp]:
  "mounts (rm_rf p w) = mounts w" "pam_data (rm_rf p w) = pam_data w"
  "fails (rm_rf p w) = fails w" "prog_status (rm_rf p w) = prog_status w"
  "prog_effect (rm_rf p w) = prog_effect w"
  "trace (rm_rf p w) = trace w" "made (rm_rf p w) = made w"
  by (simp_all add: rm_rf_def)

lemma run_prog_fields [simp]:
  "pam_data (run_prog argv w) = pam_data w"
  "fails (run_prog argv w) = fails w" "prog_status (run_prog argv w) = prog_status w"
  "prog_effect (run_prog argv w) = prog_effect w"
  "trace (run_prog argv w) = trace w" "made (run_prog argv w) = made w"
  by (simp_all add: run_prog_def)

lemma child_fields [simp]:
  "pam_data (snd (child idata argv w)) = pam_data w"
  "fails (snd (child idata argv w)) = fails w"
  "prog_status (snd (child idata argv w)) = prog_status w"
  "prog_effect (snd (child idata argv w)) = prog_effect w"
  "made (snd (child idata argv w)) = made w"
  by (simp_all add: child_def)

lemma child_mounts [simp]:
  "keeps_mounts (prog_effect w) \<Longrightarrow> mounts (snd (child idata argv w)) = mounts w"
  by (simp add: child_def run_prog_def keeps_mounts_def)

lemma run_init_script_fields [simp]:
  "pam_data (snd (run_init_script K p ipath idata nd w)) = pam_data w"
  "fails (snd (run_init_script K p ipath idata nd w)) = fails w"
  "prog_effect (snd (run_init_script K p ipath idata nd w)) = prog_effect w"
  "made (snd (run_init_script K p ipath idata nd w)) = made w"
  by (simp_all add: run_init_script_def case_prod_beta)

lemma run_init_script_mounts [simp]:
  "keeps_mounts (prog_effect w) \<Longrightarrow>
   mounts (snd (run_init_script K p ipath idata nd w)) = mounts w"
  by (simp add: run_init_script_def case_prod_beta)

lemma inst_init_fields [simp]:
  "pam_data (snd (inst_init K p ipath idata nd w)) = pam_data w"
  "fails (snd (inst_init K p ipath idata nd w)) = fails w"
  "prog_effect (snd (inst_init K p ipath idata nd w)) = prog_effect w"
  "made (snd (inst_init K p ipath idata nd w)) = made w"
  by (simp_all add: inst_init_def case_prod_beta)

lemma inst_init_mounts [simp]:
  "keeps_mounts (prog_effect w) \<Longrightarrow> mounts (snd (inst_init K p ipath idata nd w)) = mounts w"
  by (simp add: inst_init_def case_prod_beta)

text \<open>The init hook changes a path only through the script that it runs.\<close>

lemma inst_init_fs:
  "keeps_path (prog_effect w) q \<Longrightarrow> fs (snd (inst_init K p ipath idata nd w)) q = fs w q"
  by (simp add: inst_init_def run_init_script_def child_def run_prog_def keeps_path_def
        case_prod_beta)

lemma inst_init_no_script:
  assumes "\<not> access_F_OK (NAMESPACE_INIT_SCRIPT K) w"
  shows "fs (snd (inst_init K p ipath idata nd w)) = fs w"
    and "mounts (snd (inst_init K p ipath idata nd w)) = mounts w"
  using assms
  by (auto simp: inst_init_def run_init_script_def access_F_OK_def c_signal_def
        case_prod_beta split: option.splits)

lemma sys_fields [simp]:
  "mounts (snd (c_mkdir p m w)) = mounts w" "pam_data (snd (c_mkdir p m w)) = pam_data w"
  "fails (snd (c_mkdir p m w)) = fails w" "prog_effect (snd (c_mkdir p m w)) = prog_effect w"
  "made (snd (c_mkdir p m w)) = made w"
  "mounts (snd (c_mkdtemp t w)) = mounts w" "pam_data (snd (c_mkdtemp t w)) = pam_data w"
  "fails (snd (c_mkdtemp t w)) = fails w" "prog_effect (snd (c_mkdtemp t w)) = prog_effect w"
  "mounts (snd (c_fchown fd u g w)) = mounts w" "pam_data (snd (c_fchown fd u g w)) = pam_data w"
  "fails (snd (c_fchown fd u g w)) = fails w"
  "prog_effect (snd (c_fchown fd u g w)) = prog_effect w"
  "made (snd (c_fchown fd u g w)) = made w"
  "mounts (snd (c_fchmod fd m w)) = mounts w" "pam_data (snd (c_fchmod fd m w)) = pam_data w"
  "fails (snd (c_fchmod fd m w)) = fails w"
  "prog_effect (snd (c_fchmod fd m w)) = prog_effect w"
  "made (snd (c_fchmod fd m w)) = made w"
  "mounts (snd (c_fsetfilecon fd c w)) = mounts w"
  "pam_data (snd (c_fsetfilecon fd c w)) = pam_data w"
  "fails (snd (c_fsetfilecon fd c w)) = fails w"
  "prog_effect (snd (c_fsetfilecon fd c w)) = prog_effect w"
  "made (snd (c_fsetfilecon fd c w)) = made w"
  "mounts (c_rmdir p w) = mounts w" "pam_data (c_rmdir p w) = pam_data w"
  "fails (c_rmdir p w) = fails w" "prog_effect (c_rmdir p w) = prog_effect w"
  "made (c_rmdir p w) = made w"
  "mounts (snd (c_chdir p w)) = mounts w" "pam_data (snd (c_chdir p w)) = pam_data w"
  "fails (snd (c_chdir p w)) = fails w" "fs (snd (c_chdir p w)) = fs w"
  "prog_effect (snd (c_chdir p w)) = prog_effect w"
  "trace (snd (c_chdir p w)) = trace w" "made (snd (c_chdir p w)) = made w"
  by (simp_all add: c_mkdir_def c_mkdtemp_def c_fchown_def c_fchmod_def c_fsetfilecon_def
        c_rmdir_def c_chdir_def Let_def split: option.splits)

lemma check_inst_parent_fields [simp]:
  "mounts (snd (check_inst_parent ipath idata w)) = mounts w"
  "pam_data (snd (check_inst_parent ipath idata w)) = pam_data w"
  "fs (snd (check_inst_parent ipath idata w)) = fs w"
  "fails (snd (check_inst_parent ipath idata w)) = fails w"
  "prog_effect (snd (check_inst_parent ipath idata w)) = prog_effect w"
  "made (snd (check_inst_parent ipath idata w)) = made w"
  by (simp_all add: check_inst_parent_def Let_def split: option.splits)

lemma check_inst_parent_ok:
  "fst (check_inst_parent ipath idata w) = 0 \<Longrightarrow> snd (check_inst_parent ipath idata w) = w"
  by (auto simp: check_inst_parent_def Let_def split: option.splits if_splits)

lemma label_new_dir_fields [simp]:
  "mounts (snd (label_new_dir fd ic oc idata w)) = mounts w"
  "pam_data (snd (label_new_dir fd ic oc idata w)) = pam_data w"
  "fails (snd (label_new_dir fd ic oc idata w)) = fails w"
  "prog_effect (snd (label_new_dir fd ic oc idata w)) = prog_effect w"
  "made (snd (label_new_dir fd ic oc idata w)) = made w"
  by (simp_all add: label_new_dir_def split: option.splits)

lemma new_instance_dir_fields [simp]:
  "pam_data (snd (new_instance_dir K p ipath ic oc sb idata w)) = pam_data w"
  "prog_effect (snd (new_instance_dir K p ipath ic oc sb idata w)) = prog_effect w"
  "made (snd (new_instance_dir K p ipath ic oc sb idata w)) = made w"
  by (simp_all add: new_instance_dir_def case_prod_beta split: option.splits bool.splits)

lemma new_instance_dir_mounts [simp]:
  "keeps_mounts (prog_effect w) \<Longrightarrow>
   mounts (snd (new_instance_dir K p ipath ic oc sb idata w)) = mounts w"
  by (simp add: new_instance_dir_def case_prod_beta split: option.splits bool.splits)

lemma create_dirs_fields [simp]:
  "pam_data (snd (snd (snd (create_dirs K p ipath ic oc idata w)))) = pam_data w"
  "prog_effect (snd (snd (snd (create_dirs K p ipath ic oc idata w)))) = prog_effect w"
  by (simp_all add: create_dirs_def case_prod_beta split: option.splits)

lemma create_dirs_mounts [simp]:
  "keeps_mounts (prog_effect w) \<Longrightarrow>
   mounts (snd (snd (snd (create_dirs K p ipath ic oc idata w)))) = mounts w"
  by (simp add: create_dirs_def case_prod_beta split: option.splits)

lemma namer_fields [simp]:
  "mounts (snd (md5hash K n w)) = mounts w" "pam_data (snd (md5hash K n w)) = pam_data w"
  "fs (snd (md5hash K n w)) = fs w" "fails (snd (md5hash K n w)) = fails w"
  "prog_effect (snd (md5hash K n w)) = prog_effect w" "made (snd (md5hash K n w)) = made w"
  "mounts (snd (hash_name K idata n w)) = mounts w"
  "pam_data (snd (hash_name K idata n w)) = pam_data w"
  "fs (snd (hash_name K idata n w)) = fs w" "fails (snd (hash_name K idata n w)) = fails w"
  "prog_effect (snd (hash_name K idata n w)) = prog_effect w"
  "made (snd (hash_name K idata n w)) = made w"
  "mounts (snd (name_of_method p idata ic w)) = mounts w"
  "pam_data (snd (name_of_method p idata ic w)) = pam_data w"
  "fs (snd (name_of_method p idata ic w)) = fs w"
  "fails (snd (name_of_method p idata ic w)) = fails w"
  "prog_effect (snd (name_of_method p idata ic w)) = prog_effect w"
  "made (snd (name_of_method p idata ic w)) = made w"
  "mounts (snd (snd (snd (form_context p idata w)))) = mounts w"
  "pam_data (snd (snd (snd (form_context p idata w)))) = pam_data w"
  "fs (snd (snd (snd (form_context p idata w)))) = fs w"
  "fails (snd (snd (snd (form_context p idata w)))) = fails w"
  "prog_effect (snd (snd (snd (form_context p idata w)))) = prog_effect w"
  "made (snd (snd (snd (form_context p idata w)))) = made w"
  by (simp_all add: md5hash_def hash_name_def name_of_method_def form_context_def case_prod_beta
        split: option.splits polymethod.splits)

lemma poly_name_fields [simp]:
  "mounts (snd (snd (snd (snd (poly_name K p idata w))))) = mounts w"
  "pam_data (snd (snd (snd (snd (poly_name K p idata w))))) = pam_data w"
  "fs (snd (snd (snd (snd (poly_name K p idata w))))) = fs w"
  "fails (snd (snd (snd (snd (poly_name K p idata w))))) = fails w"
  "prog_effect (snd (snd (snd (snd (poly_name K p idata w))))) = prog_effect w"
  "made (snd (snd (snd (snd (poly_name K p idata w))))) = made w"
  by (simp_all add: poly_name_def case_prod_beta split: sum.splits option.splits bool.splits)

subsection \<open>The init hook's return code\<close>

lemma c_signal_ok:
  "fails w Sys_signal = None \<Longrightarrow> c_signal (Some h) w = (Some (sigchld w), w\<lparr>sigchld := h\<rparr>)"
  by (simp add: c_signal_def)

lemma run_init_script_fst:
  "fst (run_init_script K p ipath idata newdir w) =
     (if \<not> access_F_OK (NAMESPACE_INIT_SCRIPT K) w then PAM_SUCCESS
      else if \<not> access_X_OK (NAMESPACE_INIT_SCRIPT K) w then PAM_SESSION_ERR
      else if fails w Sys_fork \<noteq> None then PAM_SESSION_ERR
      else if fails w Sys_waitpid \<noteq> None then PAM_SESSION_ERR
      else case fst (child idata
               [NAMESPACE_INIT_SCRIPT K, NAMESPACE_INIT_SCRIPT K, dir p, ipath,
                if newdir \<noteq> 0 then ''1'' else ''0'', user idata] w) of
             Exited n \<Rightarrow> PAM_SUCCESS
           | Signaled n \<Rightarrow> PAM_SESSION_ERR)"
proof -
  have keep: "fails (snd (child idata argv w)) = fails w" for argv
    by (simp add: child_def call_def run_prog_def rm_rf_def)
  show ?thesis
    by (simp add: run_init_script_def keep WIFEXITED_def WIFSIGNALED_def case_prod_beta
          split: wstatus.splits)
qed

lemma inst_init_fst:
  assumes "fails w Sys_signal = None"
  shows "fst (inst_init K p ipath idata newdir w) =
           fst (run_init_script K p ipath idata newdir (w\<lparr>sigchld := SIG_DFL\<rparr>))"
  by (simp add: inst_init_def c_signal_ok [OF assms] split: prod.splits)


subsection \<open>The teardown loop\<close>

lemma c_umount_fields [simp]:
  "pam_data (snd (c_umount t w)) = pam_data w" "fs (snd (c_umount t w)) = fs w"
  "fails (snd (c_umount t w)) = fails w" "prog_status (snd (c_umount t w)) = prog_status w"
  "prog_effect (snd (c_umount t w)) = prog_effect w"
  "trace (snd (c_umount t w)) = Call_umount t # trace w" "made (snd (c_umount t w)) = made w"
  by (simp_all add: c_umount_def Let_def split: option.splits)

lemma c_mount_fields [simp]:
  "pam_data (snd (c_mount s t b w)) = pam_data w" "fs (snd (c_mount s t b w)) = fs w"
  "fails (snd (c_mount s t b w)) = fails w"
  "prog_effect (snd (c_mount s t b w)) = prog_effect w"
  "made (snd (c_mount s t b w)) = made w"
  by (simp_all add: c_mount_def Let_def split: option.splits)

lemma orig_loop_fields:
  "pam_data (snd (orig_loop idata ps w)) = pam_data w \<and>
   fs (snd (orig_loop idata ps w)) = fs w \<and>
   (Call_exec argv \<in> set (trace (snd (orig_loop idata ps w))) \<longleftrightarrow> Call_exec argv \<in> set (trace w))"
  by (induction ps arbitrary: w) (simp_all add: case_prod_beta split: option.splits)

text \<open>The loop of orig_namespace ends at the first unmount that fails.\<close>

lemma orig_loop_stops:
  assumes "orig_loop idata pre w = (True, w1)"
    and "ns_override r idata (uid_sess idata) = 0"
    and "fst (c_umount (dir r) w1) \<noteq> None"
  shows "orig_loop idata (pre @ r # post) w =
           (False, pam_syslog LOG_ERR ''Unmount of %s failed, %m'' (snd (c_umount (dir r) w1)))"
  using assms
proof (induction pre arbitrary: w)
  case Nil
  then show ?case by (auto split: prod.splits option.splits)
next
  case (Cons p pre)
  show ?case
  proof (cases "ns_override p idata (uid_sess idata) \<noteq> 0")
    case True
    with Cons show ?thesis by simp
  next
    case False
    with Cons.prems(1) obtain w' where u: "c_umount (dir p) w = (None, w')"
      and l: "orig_loop idata pre w' = (True, w1)"
      by (auto split: prod.splits option.splits)
    from Cons.IH [OF l Cons.prems(2,3)] False u show ?thesis by simp
  qed
qed

lemma cleanup_loop_fields:
  "pam_data (snd (cleanup_loop idata ps w)) = pam_data w \<and>
   prog_effect (snd (cleanup_loop idata ps w)) = prog_effect w \<and>
   made (snd (cleanup_loop idata ps w)) = made w"
  by (induction ps arbitrary: w) (simp_all add: case_prod_beta)

lemma cleanup_loop_mounts:
  "keeps_mounts (prog_effect w) \<Longrightarrow> mounts (snd (cleanup_loop idata ps w)) = mounts w"
  by (induction ps arbitrary: w) (simp_all add: case_prod_beta)

lemma cleanup_tmpdirs_fields [simp]:
  "pam_data (snd (cleanup_tmpdirs idata w)) = pam_data w"
  "prog_effect (snd (cleanup_tmpdirs idata w)) = prog_effect w"
  "made (snd (cleanup_tmpdirs idata w)) = made w"
  by (simp_all add: cleanup_tmpdirs_def case_prod_beta cleanup_loop_fields)

lemma cleanup_tmpdirs_mounts:
  "keeps_mounts (prog_effect w) \<Longrightarrow> mounts (snd (cleanup_tmpdirs idata w)) = mounts w"
  by (simp add: cleanup_tmpdirs_def case_prod_beta cleanup_loop_mounts)

lemma orig_namespace_pam_data [simp]:
  "pam_data (snd (orig_namespace idata w)) = pam_data w"
  by (simp add: orig_namespace_def case_prod_beta orig_loop_fields split: bool.splits)

subsection \<open>The digest and the hashing step\<close>

lemma length_md5hex: "length (md5hex K s) = 32"
  by (simp add: md5hex_def hex2_def MD5_DIGEST_LENGTH_def length_concat comp_def sum_list_triv)

lemma hexdigit_in: "hexdigit n \<in> hexchars"
proof -
  have "n mod 16 < length ''0123456789abcdef''" by simp
  then have "''0123456789abcdef'' ! (n mod 16) \<in> set ''0123456789abcdef''"
    by (rule nth_mem)
  then show ?thesis by (simp only: hexdigit_def hexchars_def)
qed

lemma set_md5hex: "set (md5hex K s) \<subseteq> hexchars"
  by (auto simp: md5hex_def hex2_def hexdigit_in)

lemma hash_name_Some:
  assumes "hash_name K idata n w = (Some n', w')"
  shows "n' = (if PAMNS_GEN_HASH \<in> flags idata then md5hex K n
               else if NAMESPACE_MAX_DIR_LEN K < length n
               then printf_prec_s (int (NAMESPACE_MAX_DIR_LEN K) - 33) n @ ''_'' @ md5hex K n
               else n)"
  using assms
  by (auto simp: hash_name_def md5hash_def length_md5hex split: if_splits)

subsection \<open>The attributes of a new instance directory\<close>

lemma chmod_bits:
  "(((x::32 word) AND 0xF000) OR (y AND 0xFFF)) AND 0xFFF = y AND 0xFFF"
  by (simp add: bit.conj_disj_distrib2 and.assoc)

lemma c_open_dir_Some: "c_open_dir p w = Some fd \<Longrightarrow> fd = p \<and> fs w p \<noteq> None"
  by (auto simp: c_open_dir_def split: if_splits option.splits)

lemma c_fchown_True:
  "c_fchown fd u g w = (True, w') \<Longrightarrow>
   \<exists>i. fs w fd = Some i \<and> fs w' = (fs w)(fd \<mapsto> i\<lparr>st_uid := u, st_gid := g\<rparr>)"
  by (auto simp: c_fchown_def split: if_splits option.splits)

lemma c_fchmod_True:
  "c_fchmod fd m w = (True, w') \<Longrightarrow>
   \<exists>i. fs w fd = Some i \<and>
       fs w' = (fs w)(fd \<mapsto> i\<lparr>st_mode := (st_mode i AND 0xF000) OR (m AND 0xFFF)\<rparr>)"
  by (auto simp: c_fchmod_def split: if_splits option.splits)

lemma label_new_dir_True:
  "label_new_dir fd ic oc idata w = (True, w') \<Longrightarrow>
   w' = w \<or> (\<exists>i c. fs w fd = Some i \<and> fs w' = (fs w)(fd \<mapsto> i\<lparr>con := Some c\<rparr>))"
  by (auto simp: label_new_dir_def c_fsetfilecon_def split: if_splits option.splits)

text \<open>
  When new_instance_dir succeeds, the init hook was called on a world in which the new
  directory has the owner, the group and the permission bits of the original.
\<close>

lemma new_instance_dir_attrs:
  assumes "new_instance_dir K p ipath ic oc sb idata w = (PAM_SUCCESS, w')"
  shows "\<exists>w3 i. inst_init K p ipath idata 1 w3 = (PAM_SUCCESS, w') \<and>
             prog_effect w3 = prog_effect w \<and>
             fs w3 ipath = Some i \<and> st_uid i = st_uid sb \<and> st_gid i = st_gid sb \<and>
             st_mode i AND 0xFFF = st_mode sb AND 0xFFF"
proof -
  from assms obtain fd where op: "c_open_dir ipath w = Some fd"
    by (auto simp: new_instance_dir_def split: option.splits)
  then have fd: "fd = ipath" by (simp add: c_open_dir_Some)
  from assms op obtain w1 where lb: "label_new_dir fd ic oc idata w = (True, w1)"
    by (auto simp: new_instance_dir_def split: prod.splits bool.splits)
  from assms op lb obtain ns where st: "c_fstat fd w1 = Some ns"
    by (auto simp: new_instance_dir_def split: option.splits)
  then have ns: "fs w1 fd = Some ns"
    by (auto simp: c_fstat_def split: if_splits)
  obtain ok w2 where ch:
    "(if st_uid ns \<noteq> st_uid sb \<or> st_gid ns \<noteq> st_gid sb
      then c_fchown fd (st_uid sb) (st_gid sb) w1 else (True, w1)) = (ok, w2)"
    by (metis surj_pair)
  from assms op lb st ch have ok: "ok"
    by (auto simp: new_instance_dir_def split: bool.splits)
  from ch ok ns obtain i2 where i2: "fs w2 fd = Some i2" "st_uid i2 = st_uid sb" "st_gid i2 = st_gid sb"
    by (auto split: if_splits dest!: c_fchown_True)
  from assms op lb st ch ok obtain w3 where
    cm: "c_fchmod fd (st_mode sb AND 0xFFF) w2 = (True, w3)"
    and ii: "inst_init K p ipath idata 1 w3 = (PAM_SUCCESS, w')"
    by (auto simp: new_instance_dir_def split: prod.splits bool.splits)
  from c_fchmod_True [OF cm] i2 have
    "fs w3 fd = Some (i2\<lparr>st_mode := (st_mode i2 AND 0xF000) OR (st_mode sb AND 0xFFF AND 0xFFF)\<rparr>)"
    by auto
  then have at: "\<exists>i. fs w3 ipath = Some i \<and> st_uid i = st_uid sb \<and> st_gid i = st_gid sb \<and>
             st_mode i AND 0xFFF = st_mode sb AND 0xFFF"
    using i2 fd by (simp add: chmod_bits)
  have "prog_effect w1 = prog_effect w"
    using arg_cong [OF lb, of "\<lambda>x. prog_effect (snd x)"] by simp
  moreover have "prog_effect w2 = prog_effect w1"
    using arg_cong [OF ch, of "\<lambda>x. prog_effect (snd x)"] by (simp split: if_splits)
  moreover have "prog_effect w3 = prog_effect w2"
    using arg_cong [OF cm, of "\<lambda>x. prog_effect (snd x)"] by simp
  ultimately have "prog_effect w3 = prog_effect w" by simp
  with at ii show ?thesis by blast
qed

subsection \<open>What the config loader appends\<close>

lemma take_prefix_iff: "(take (length n) h = n) = (\<exists>b. h = n @ b)"
  by (metis append_eq_conv_conj append_take_drop_id)

lemma strstr_iff: "(strstr h n \<noteq> None) = has_sub n h"
proof (induction h)
  case Nil
  then show ?case by (auto simp: has_sub_def)
next
  case (Cons c cs)
  have "has_sub n (c # cs) = ((\<exists>b. c # cs = n @ b) \<or> has_sub n cs)"
  proof
    assume "has_sub n (c # cs)"
    then obtain a b where ab: "c # cs = a @ n @ b" by (auto simp: has_sub_def)
    show "(\<exists>b. c # cs = n @ b) \<or> has_sub n cs"
    proof (cases a)
      case Nil
      with ab show ?thesis by auto
    next
      case (Cons x a')
      with ab have "cs = a' @ n @ b" by simp
      then show ?thesis by (auto simp: has_sub_def)
    qed
  next
    assume "(\<exists>b. c # cs = n @ b) \<or> has_sub n cs"
    then show "has_sub n (c # cs)"
    proof
      assume "\<exists>b. c # cs = n @ b"
      then obtain b where "c # cs = [] @ n @ b" by auto
      then show ?thesis unfolding has_sub_def by blast
    next
      assume "has_sub n cs"
      then obtain a b where "cs = a @ n @ b" by (auto simp: has_sub_def)
      then have "c # cs = (c # a) @ n @ b" by simp
      then show ?thesis unfolding has_sub_def by blast
    qed
  qed
  with Cons show ?case
    by (simp add: take_prefix_iff del: take_Suc_Cons)
qed

lemma first_is_iff: "first_is c s = (\<exists>t. s = c # t)"
  by (cases s) (auto simp: first_is_def)

lemma no_dotdot_template:
  assumes "\<not> has_sub ''..'' s"
  shows "\<not> has_sub ''..'' (s @ ''XXXXXX'')"
proof
  assume "has_sub ''..'' (s @ ''XXXXXX'')"
  then obtain a b where ab: "s @ ''XXXXXX'' = a @ ''..'' @ b"
    by (auto simp: has_sub_def)
  show False
  proof (cases "length a + 2 \<le> length s")
    case True
    define k where "k = length s - length a - 2"
    from True have k: "length s - length a = Suc (Suc k)"
      by (simp add: k_def)
    from ab have "take (length s) (s @ ''XXXXXX'') = take (length s) (a @ ''..'' @ b)"
      by simp
    moreover from True have "take (length s) a = a"
      by simp
    ultimately have "s = a @ ''..'' @ take k b"
      by (simp add: k)
    with assms show False unfolding has_sub_def by blast
  next
    case False
    from ab have "length (s @ ''XXXXXX'') = length (a @ ''..'' @ b)"
      by (rule arg_cong)
    then have len: "length s + 6 = length a + 2 + length b"
      by simp
    from ab have "(s @ ''XXXXXX'') ! (length a + 1) = (a @ ''..'' @ b) ! (length a + 1)"
      by simp
    moreover have "(a @ ''..'' @ b) ! (length a + 1) = CHR ''.''"
      by (simp add: nth_append)
    moreover have "(s @ ''XXXXXX'') ! (length a + 1) = CHR ''X''"
    proof -
      from False have ge: "length s \<le> length a + 1" by simp
      from len have "length a + 1 - length s < 6" using ge by simp
      then have "''XXXXXX'' ! (length a + 1 - length s) = CHR ''X''"
        by (auto simp: nth_Cons' less_Suc_eq numeral_eq_Suc)
      with ge show ?thesis by (simp add: nth_append del: nth_Cons_Suc)
    qed
    ultimately show False by simp
  qed
qed


lemma add_polydir_entry_appends:
  "add_polydir_entry idata ent w = (rc, idata') \<Longrightarrow>
   polydirs_ptr idata' = polydirs_ptr idata \<or>
   (\<exists>p. polydirs_ptr idata' = polydirs_ptr idata @ [p] \<and> dir p = dir ent \<and>
        instance_prefix p = instance_prefix ent \<and> method p = method ent)"
  by (auto simp: add_polydir_entry_def copy_ent_def split: if_splits option.splits)

lemma add_rule_appends:
  assumes "add_rule poly uids idata w = (rc, idata', w')"
  shows "polydirs_ptr idata' = polydirs_ptr idata \<or>
         (\<exists>p. polydirs_ptr idata' = polydirs_ptr idata @ [p] \<and> dir p = dir poly \<and>
              instance_prefix p = instance_prefix poly \<and> method p = method poly)"
proof (cases uids)
  case None
  with assms show ?thesis
    by (auto simp: add_rule_def split: prod.splits if_splits dest!: add_polydir_entry_appends)
next
  case (Some u0)
  with assms show ?thesis
    by (auto simp: add_rule_def skip_line_def Let_def split: prod.splits if_splits
          dest!: add_polydir_entry_appends)
qed

lemma process_line_appends:
  assumes "process_line K line home idata w = (rc, idata', w')"
  shows "polydirs_ptr idata' = polydirs_ptr idata \<or>
         (\<exists>p. polydirs_ptr idata' = polydirs_ptr idata @ [p] \<and> rule_invariant p)"
proof (cases "polydirs_ptr idata' = polydirs_ptr idata")
  case True
  then show ?thesis by simp
next
  case False
  from assms False obtain poly uids iprefix where
    ar: "add_rule poly uids idata w = (rc, idata', w')"
    and m: "method poly \<noteq> NONE"
    and a: "first_is (CHR ''/'') (dir poly)" "method poly \<noteq> TMPFS \<longrightarrow> first_is (CHR ''/'') iprefix"
    and n: "strstr (dir poly) ''..'' = None" "strstr iprefix ''..'' = None"
    and ip: "instance_prefix poly = iprefix \<or> instance_prefix poly = iprefix @ ''XXXXXX''"
    unfolding process_line_def skip_line_def Let_def
    by (simp split: if_splits prod.splits option.splits) fastforce+
  from add_rule_appends [OF ar] False obtain p where
    p: "polydirs_ptr idata' = polydirs_ptr idata @ [p]" "dir p = dir poly"
       "instance_prefix p = instance_prefix poly" "method p = method poly"
    by blast
  from n have nd: "\<not> has_sub ''..'' (dir poly)" "\<not> has_sub ''..'' iprefix"
    using strstr_iff by blast+
  have "rule_invariant p"
    unfolding rule_invariant_def
    using p(2-4) m a nd ip no_dotdot_template [OF nd(2)]
    by (auto simp: first_is_iff)
  with p(1) show ?thesis by blast
qed

lemma process_lines_appends:
  "process_lines K lines home idata w = (rc, idata', w') \<Longrightarrow>
   \<exists>new. polydirs_ptr idata' = polydirs_ptr idata @ new \<and> (\<forall>p\<in>set new. rule_invariant p)"
proof (induction lines arbitrary: idata w)
  case Nil
  then show ?case by simp
next
  case (Cons line rest)
  obtain r1 i1 w1 where pl: "process_line K line home idata w = (r1, i1, w1)"
    by (metis prod_cases3)
  from process_line_appends [OF pl] obtain n1 where
    n1: "polydirs_ptr i1 = polydirs_ptr idata @ n1" "\<forall>p\<in>set n1. rule_invariant p"
    by (metis append_Nil2 empty_iff empty_set set_ConsD)
  show ?case
  proof (cases "r1 \<noteq> 0")
    case True
    with Cons.prems pl have "idata' = i1" by simp
    with n1 show ?thesis by blast
  next
    case False
    with Cons.prems pl have "process_lines K rest home i1 w1 = (rc, idata', w')" by simp
    from Cons.IH [OF this] obtain n2 where
      "polydirs_ptr idata' = polydirs_ptr i1 @ n2" "\<forall>p\<in>set n2. rule_invariant p"
      by blast
    with n1 have "polydirs_ptr idata' = polydirs_ptr idata @ (n1 @ n2)"
      "\<forall>p\<in>set (n1 @ n2). rule_invariant p"
      by auto
    then show ?thesis by blast
  qed
qed


subsection \<open>The setup loop, the mount table and the cleanup pass\<close>

lemma need_poly_iff:
  "(need_poly idata unmnt req ps \<noteq> 0) =
     (\<exists>p\<in>set ps. \<not> (ns_override p idata (uid_sess idata) \<noteq> 0
                      \<and> (unmnt = NO_UNMNT \<or> ns_override p idata req \<noteq> 0)))"
  by (induction ps) auto

lemma setup_dir_rv:
  "setup_dir K idata unmnt req rv0 p w = (leave, rv, p', w') \<Longrightarrow>
   (leave \<longrightarrow> rv \<noteq> 0) \<and> (\<not> leave \<longrightarrow> rv = rv0 \<or> rv = 0)"
  by (auto simp: setup_dir_def Let_def split: if_splits prod.splits bool.splits)

lemma setup_dir_leave_not_skipped:
  "setup_dir K idata unmnt req rv0 p w = (True, rv, p', w') \<Longrightarrow>
   \<not> (ns_override p idata (uid_sess idata) \<noteq> 0
      \<and> (unmnt = NO_UNMNT \<or> ns_override p idata req \<noteq> 0))"
  by (auto simp: setup_dir_def split: if_splits)

text \<open>
  The second loop of setup_namespace goes on after rules that were processed without
  failure, and ends at the first rule whose processing fails.
\<close>

lemma setup_loop_append:
  assumes "setup_loop K idata unmnt req 0 pa w = (0, pa', wa)"
  shows "setup_loop K idata unmnt req 0 (pa @ pb) w =
           (fst (setup_loop K idata unmnt req 0 pb wa),
            pa' @ fst (snd (setup_loop K idata unmnt req 0 pb wa)),
            snd (snd (setup_loop K idata unmnt req 0 pb wa)))"
  using assms
proof (induction pa arbitrary: w pa')
  case Nil
  then show ?case by simp
next
  case (Cons p pa)
  obtain lv rvp p1 wp where sd: "setup_dir K idata unmnt req 0 p w = (lv, rvp, p1, wp)"
    by (metis prod_cases4)
  from setup_dir_rv [OF sd] have rvp: "(lv \<longrightarrow> rvp \<noteq> 0) \<and> (\<not> lv \<longrightarrow> rvp = 0)"
    by simp
  show ?case
  proof (cases lv)
    case True
    with Cons.prems sd rvp show ?thesis by simp
  next
    case False
    with rvp have z: "rvp = 0" by simp
    obtain rv2 rest' w'' where sl: "setup_loop K idata unmnt req 0 pa wp = (rv2, rest', w'')"
      by (metis prod_cases3)
    from Cons.prems sd False z sl have e: "rv2 = 0" "pa' = p1 # rest'" "w'' = wa"
      by simp_all
    from sl e have "setup_loop K idata unmnt req 0 pa wp = (0, rest', wa)" by simp
    from Cons.IH [OF this] sd False z e show ?thesis by (simp add: case_prod_beta)
  qed
qed

lemma setup_loop_stops:
  assumes "setup_loop K idata unmnt req 0 pre w = (0, pre', w1)"
    and "setup_dir K idata unmnt req 0 r w1 = (True, rv, r', w2)"
  shows "setup_loop K idata unmnt req 0 (pre @ r # post) w = (rv, pre' @ r' # post, w2)"
  using setup_loop_append [OF assms(1), of "r # post"] assms(2) by simp

lemma orch_fields [simp]:
  "prog_effect (snd (cwd_in d idata w)) = prog_effect w" "made (snd (cwd_in d idata w)) = made w"
  "mounts (snd (cwd_in d idata w)) = mounts w"
  "prog_effect (chdir_to_parent p w) = prog_effect w" "made (chdir_to_parent p w) = made w"
  "mounts (chdir_to_parent p w) = mounts w"
  "prog_effect (snd (unmount_dir p idata w)) = prog_effect w"
  "made (snd (unmount_dir p idata w)) = made w"
  by (simp_all add: cwd_in_def chdir_to_parent_def unmount_dir_def c_getcwd_def case_prod_beta
        Let_def split: option.splits bool.splits)

lemma ns_setup_fields [simp]:
  "prog_effect (snd (snd (ns_setup K p idata w))) = prog_effect w"
  by (simp add: ns_setup_def case_prod_beta split: bool.splits)

lemma setup_dir_fields [simp]:
  "prog_effect (snd (snd (snd (setup_dir K idata unmnt req rv0 p w)))) = prog_effect w"
  by (simp add: setup_dir_def Let_def case_prod_beta split: bool.splits)

lemma setup_loop_fields:
  "prog_effect (snd (snd (setup_loop K idata unmnt req rv0 ps w))) = prog_effect w"
  by (induction ps arbitrary: w rv0) (simp_all add: case_prod_beta)

text \<open>What is mounted stays mounted, except on the directory that a rule unmounts.\<close>

lemma remove_mount_keeps:
  "m \<in> set ms \<Longrightarrow> snd m \<noteq> tgt \<Longrightarrow> m \<in> set (remove_mount tgt ms)"
  by (induction ms) auto

lemma c_mount_mounts: "set (mounts w) \<subseteq> set (mounts (snd (c_mount s t b w)))"
  by (auto simp: c_mount_def Let_def split: option.splits)

lemma c_umount_mounts:
  "m \<in> set (mounts w) \<Longrightarrow> snd m \<noteq> t \<Longrightarrow> m \<in> set (mounts (snd (c_umount t w)))"
  by (auto simp: c_umount_def Let_def remove_mount_keeps split: option.splits)

lemma ns_setup_mounts:
  assumes "keeps_mounts (prog_effect w)"
  shows "set (mounts w) \<subseteq> set (mounts (snd (snd (ns_setup K p idata w))))"
proof -
  have a: "set (mounts w) \<subseteq> set (mounts (snd (c_mount s t b w')))" if "mounts w' = mounts w"
    for s t b w'
    using c_mount_mounts [of w' s t b] that by simp
  show ?thesis
    unfolding ns_setup_def using assms
    by (auto simp: case_prod_beta split: bool.splits if_splits intro!: a [THEN subsetD])
qed

lemma unmount_dir_mounts:
  "m \<in> set (mounts w) \<Longrightarrow> snd m \<noteq> dir p \<Longrightarrow> m \<in> set (mounts (snd (unmount_dir p idata w)))"
proof -
  assume m: "m \<in> set (mounts w)" "snd m \<noteq> dir p"
  have a: "m \<in> set (mounts (snd (c_umount (dir p) w')))" if "mounts w' = mounts w" for w'
    using c_umount_mounts [of m w' "dir p"] m that by simp
  show ?thesis
    unfolding unmount_dir_def cwd_in_def chdir_to_parent_def c_getcwd_def
    by (auto simp: case_prod_beta Let_def m split: option.splits bool.splits if_splits intro!: a)
qed

lemma setup_dir_mounts:
  assumes "keeps_mounts (prog_effect w)" and "m \<in> set (mounts w)" and "snd m \<noteq> dir p"
  shows "m \<in> set (mounts (snd (snd (snd (setup_dir K idata unmnt req rv0 p w)))))"
proof -
  have n: "m \<in> set (mounts (snd (snd (ns_setup K p idata w'))))"
    if "m \<in> set (mounts w')" "prog_effect w' = prog_effect w" for w'
    using ns_setup_mounts [of w' K p idata] that assms(1) by auto
  have u: "m \<in> set (mounts (snd (unmount_dir p idata w)))"
    using unmount_dir_mounts [OF assms(2,3)] .
  show ?thesis
    unfolding setup_dir_def
    by (auto simp: case_prod_beta Let_def assms u split: bool.splits if_splits intro!: n)
qed

lemma setup_dir_mounts_no_unmnt:
  assumes "keeps_mounts (prog_effect w)" and "m \<in> set (mounts w)"
  shows "m \<in> set (mounts (snd (snd (snd (setup_dir K idata NO_UNMNT req rv0 p w)))))"
proof -
  have n: "m \<in> set (mounts (snd (snd (ns_setup K p idata w))))"
    using ns_setup_mounts [OF assms(1), of K p idata] assms(2) by auto
  show ?thesis
    unfolding setup_dir_def
    by (auto simp: case_prod_beta Let_def assms n split: bool.splits if_splits)
qed

lemma setup_loop_mounts:
  assumes "keeps_mounts (prog_effect w)" and "m \<in> set (mounts w)" and "snd m \<notin> dir ` set ps"
  shows "m \<in> set (mounts (snd (snd (setup_loop K idata unmnt req rv0 ps w))))"
  using assms
proof (induction ps arbitrary: w rv0)
  case Nil
  then show ?case by simp
next
  case (Cons p ps)
  let ?sd = "setup_dir K idata unmnt req rv0 p w"
  let ?w1 = "snd (snd (snd ?sd))"
  from Cons.prems have d: "snd m \<noteq> dir p" and r: "snd m \<notin> dir ` set ps"
    by auto
  have k: "keeps_mounts (prog_effect ?w1)"
    using Cons.prems(1) by simp
  have m1: "m \<in> set (mounts ?w1)"
    using setup_dir_mounts [OF Cons.prems(1,2) d] .
  from Cons.IH [OF k m1 r] m1 show ?case
    by (simp add: case_prod_beta)
qed

lemma setup_loop_mounts_no_unmnt:
  assumes "keeps_mounts (prog_effect w)" and "m \<in> set (mounts w)"
  shows "m \<in> set (mounts (snd (snd (setup_loop K idata NO_UNMNT req rv0 ps w))))"
  using assms
proof (induction ps arbitrary: w rv0)
  case Nil
  then show ?case by simp
next
  case (Cons p ps)
  let ?sd = "setup_dir K idata NO_UNMNT req rv0 p w"
  let ?w1 = "snd (snd (snd ?sd))"
  have k: "keeps_mounts (prog_effect ?w1)"
    using Cons.prems(1) by simp
  have m1: "m \<in> set (mounts ?w1)"
    using setup_dir_mounts_no_unmnt [OF Cons.prems(1,2)] .
  from Cons.IH [OF k m1] m1 show ?case
    by (simp add: case_prod_beta)
qed

text \<open>
  A directory that mkdtemp creates during the loop has its name in a rule of the method
  TMPDIR when the loop ends.
\<close>

lemma tmp_instances_simps [simp]:
  "tmp_instances [] = {}"
  "tmp_instances (p # ps) =
     (if method p = TMPDIR then {instance_prefix p} else {}) \<union> tmp_instances ps"
  "tmp_instances (ps @ qs) = tmp_instances ps \<union> tmp_instances qs"
  by (auto simp: tmp_instances_def)

lemma c_mkdtemp_made [simp]:
  "made (snd (c_mkdtemp t w)) =
     (case fst (c_mkdtemp t w) of None \<Rightarrow> made w | Some n \<Rightarrow> insert n (made w))"
  by (simp add: c_mkdtemp_def Let_def)

lemma create_dirs_made:
  "n \<in> made (snd (snd (snd (create_dirs K p ipath ic oc idata w)))) \<Longrightarrow>
   n \<in> made w \<or> n \<in> tmp_instances [fst (snd (create_dirs K p ipath ic oc idata w))]"
  by (auto simp: create_dirs_def case_prod_beta split: option.splits if_splits)

lemma ns_setup_made:
  assumes "n \<in> made (snd (snd (ns_setup K p idata w)))"
  shows "n \<in> made w \<or> n \<in> tmp_instances [fst (snd (ns_setup K p idata w))]"
proof -
  have c: "n \<in> made w \<or> n \<in> tmp_instances [fst (snd (create_dirs K p ipath ic oc idata w'))]"
    if "n \<in> made (snd (snd (snd (create_dirs K p ipath ic oc idata w'))))" "made w' = made w"
    for ipath ic oc w'
    using create_dirs_made [OF that(1)] that(2) by simp
  show ?thesis
    using assms unfolding ns_setup_def
    by (auto simp: case_prod_beta split: bool.splits if_splits dest!: c)
qed

lemma setup_dir_made:
  assumes "n \<in> made (snd (snd (snd (setup_dir K idata unmnt req rv0 p w))))"
  shows "n \<in> made w \<or> n \<in> tmp_instances [fst (snd (snd (setup_dir K idata unmnt req rv0 p w)))]"
proof -
  have c: "n \<in> made w \<or> n \<in> tmp_instances [fst (snd (ns_setup K p idata w'))]"
    if "n \<in> made (snd (snd (ns_setup K p idata w')))" "made w' = made w" for w'
    using ns_setup_made [OF that(1)] that(2) by simp
  show ?thesis
    using assms unfolding setup_dir_def
    by (auto simp: case_prod_beta Let_def split: bool.splits if_splits dest!: c)
qed

lemma setup_loop_made:
  "n \<in> made (snd (snd (setup_loop K idata unmnt req rv0 ps w))) \<Longrightarrow>
   n \<in> made w \<or> n \<in> tmp_instances (fst (snd (setup_loop K idata unmnt req rv0 ps w)))"
proof (induction ps arbitrary: w rv0)
  case Nil
  then show ?case by simp
next
  case (Cons p ps)
  let ?sd = "setup_dir K idata unmnt req rv0 p w"
  let ?p1 = "fst (snd (snd ?sd))"
  let ?w1 = "snd (snd (snd ?sd))"
  have one: "n \<in> made w \<or> n \<in> tmp_instances [?p1]" if "n \<in> made ?w1"
    using setup_dir_made [OF that] .
  show ?case
  proof (cases "fst ?sd")
    case True
    with Cons.prems have "n \<in> made ?w1"
      by (simp add: case_prod_beta)
    from one [OF this] True show ?thesis
      by (auto simp: case_prod_beta)
  next
    case False
    let ?sl = "setup_loop K idata unmnt req (fst (snd ?sd)) ps ?w1"
    from False Cons.prems have "n \<in> made (snd (snd ?sl))"
      by (simp add: case_prod_beta)
    from Cons.IH [OF this] have "n \<in> made ?w1 \<or> n \<in> tmp_instances (fst (snd ?sl))" .
    then show ?thesis
    proof
      assume "n \<in> made ?w1"
      from one [OF this] False show ?thesis
        by (auto simp: case_prod_beta)
    next
      assume "n \<in> tmp_instances (fst (snd ?sl))"
      with False show ?thesis
        by (auto simp: case_prod_beta)
    qed
  qed
qed

text \<open>
  The cleanup pass: when it can run its children and every rm ends with status 0, no
  rule of the method TMPDIR has its instance directory left.
\<close>

lemma child_rm_keeps_none:
  "prog_status w [''/bin/rm'', ''/bin/rm'', ''-rf'', q'] = Exited 0 \<Longrightarrow> fs w q = None \<Longrightarrow>
   fs (snd (child idata [''/bin/rm'', ''/bin/rm'', ''-rf'', q'] w)) q = None"
  by (simp add: child_def run_prog_def rm_rf_def)

lemma cleanup_loop_keeps_none:
  "\<forall>x\<in>set ps. method x = TMPDIR \<longrightarrow>
      prog_status w [''/bin/rm'', ''/bin/rm'', ''-rf'', instance_prefix x] = Exited 0 \<Longrightarrow>
   fs w q = None \<Longrightarrow> fs (snd (cleanup_loop idata ps w)) q = None"
  by (induction ps arbitrary: w) (simp_all add: case_prod_beta child_rm_keeps_none)

lemma child_rm_removes:
  assumes "PAMNS_SELINUX_ENABLED \<in> flags idata \<longrightarrow> fails w Sys_setexeccon = None"
    and "fails w (Sys_execl ''/bin/rm'') = None"
    and "prog_status w [''/bin/rm'', ''/bin/rm'', ''-rf'', q] = Exited 0"
  shows "child idata [''/bin/rm'', ''/bin/rm'', ''-rf'', q] w
           = (Exited 0, rm_rf q (call (Call_exec [''/bin/rm'', ''/bin/rm'', ''-rf'', q]) w))"
  using assms by (simp add: child_def run_prog_def)

lemma cleanup_loop_removes:
  assumes "fails w Sys_fork = None" and "fails w Sys_waitpid = None"
    and "PAMNS_SELINUX_ENABLED \<in> flags idata \<longrightarrow> fails w Sys_setexeccon = None"
    and "fails w (Sys_execl ''/bin/rm'') = None"
    and "\<forall>x\<in>set ps. method x = TMPDIR \<longrightarrow>
           fails w (Sys_access (instance_prefix x)) = None \<and>
           prog_status w [''/bin/rm'', ''/bin/rm'', ''-rf'', instance_prefix x] = Exited 0"
    and "p \<in> set ps" and "method p = TMPDIR"
  shows "fs (snd (cleanup_loop idata ps w)) (instance_prefix p) = None"
  using assms
proof (induction ps arbitrary: w)
  case Nil
  then show ?case by simp
next
  case (Cons x ps)
  let ?argv = "[''/bin/rm'', ''/bin/rm'', ''-rf'', instance_prefix x]"
  let ?w1 = "rm_rf (instance_prefix x) (call (Call_exec ?argv) w)"
  have ch: "child idata ?argv w = (Exited 0, ?w1)" if "method x = TMPDIR"
    using Cons.prems(3,4,5) that by (simp add: child_rm_removes)
  have step: "cleanup_loop idata (x # ps) w =
                (if method x = TMPDIR \<and> access_F_OK (instance_prefix x) w
                 then cleanup_loop idata ps ?w1 else cleanup_loop idata ps w)"
  proof (cases "method x = TMPDIR")
    case True
    from ch [OF True] Cons.prems(1,2) show ?thesis
      by (simp add: WIFEXITED_def WIFSIGNALED_def)
  next
    case False
    then show ?thesis by simp
  qed
  have st: "\<forall>x\<in>set ps. method x = TMPDIR \<longrightarrow>
              prog_status w [''/bin/rm'', ''/bin/rm'', ''-rf'', instance_prefix x] = Exited 0"
    using Cons.prems(5) by simp
  have st1: "\<forall>x\<in>set ps. method x = TMPDIR \<longrightarrow>
              prog_status ?w1 [''/bin/rm'', ''/bin/rm'', ''-rf'', instance_prefix x] = Exited 0"
    using st by simp
  have or0: "\<forall>x\<in>set ps. method x = TMPDIR \<longrightarrow>
           fails w (Sys_access (instance_prefix x)) = None \<and>
           prog_status w [''/bin/rm'', ''/bin/rm'', ''-rf'', instance_prefix x] = Exited 0"
    using Cons.prems(5) by simp
  have or1: "fails ?w1 Sys_fork = None" "fails ?w1 Sys_waitpid = None"
    "PAMNS_SELINUX_ENABLED \<in> flags idata \<longrightarrow> fails ?w1 Sys_setexeccon = None"
    "fails ?w1 (Sys_execl ''/bin/rm'') = None"
    "\<forall>x\<in>set ps. method x = TMPDIR \<longrightarrow>
           fails ?w1 (Sys_access (instance_prefix x)) = None \<and>
           prog_status ?w1 [''/bin/rm'', ''/bin/rm'', ''-rf'', instance_prefix x] = Exited 0"
    using Cons.prems(1-5) by simp_all
  show ?case
  proof (cases "p = x")
    case True
    with Cons.prems(7) have tx: "method x = TMPDIR" by simp
    show ?thesis
    proof (cases "access_F_OK (instance_prefix x) w")
      case True
      have "fs ?w1 (instance_prefix x) = None" by (simp add: rm_rf_def)
      with st1 have "fs (snd (cleanup_loop idata ps ?w1)) (instance_prefix x) = None"
        by (rule cleanup_loop_keeps_none)
      with step True \<open>p = x\<close> tx show ?thesis by simp
    next
      case False
      moreover have "fails w (Sys_access (instance_prefix x)) = None"
        using Cons.prems(5) tx by simp
      ultimately have "fs w (instance_prefix x) = None" by (simp add: access_F_OK_def)
      with st have "fs (snd (cleanup_loop idata ps w)) (instance_prefix x) = None"
        by (rule cleanup_loop_keeps_none)
      with step False \<open>p = x\<close> show ?thesis by simp
    qed
  next
    case False
    with Cons.prems(6) have p: "p \<in> set ps" by simp
    show ?thesis
    proof (cases "method x = TMPDIR \<and> access_F_OK (instance_prefix x) w")
      case True
      from Cons.IH [OF or1 p Cons.prems(7)] step True show ?thesis by simp
    next
      case False
      from Cons.IH [OF Cons.prems(1-4) or0 p Cons.prems(7)] step False show ?thesis by auto
    qed
  qed
qed

lemma cleanup_tmpdirs_removes:
  assumes "fails w Sys_signal = None" and "fails w Sys_fork = None" and "fails w Sys_waitpid = None"
    and "PAMNS_SELINUX_ENABLED \<in> flags idata \<longrightarrow> fails w Sys_setexeccon = None"
    and "fails w (Sys_execl ''/bin/rm'') = None"
    and "\<forall>x\<in>set (polydirs_ptr idata). method x = TMPDIR \<longrightarrow>
           fails w (Sys_access (instance_prefix x)) = None \<and>
           prog_status w [''/bin/rm'', ''/bin/rm'', ''-rf'', instance_prefix x] = Exited 0"
    and "p \<in> set (polydirs_ptr idata)" and "method p = TMPDIR"
  shows "fs (snd (cleanup_tmpdirs idata w)) (instance_prefix p) = None"
proof -
  let ?w1 = "w\<lparr>sigchld := SIG_DFL\<rparr>"
  have "fs (snd (cleanup_loop idata (polydirs_ptr idata) ?w1)) (instance_prefix p) = None"
    using assms by (intro cleanup_loop_removes) simp_all
  then show ?thesis
    using assms(1) by (simp add: cleanup_tmpdirs_def c_signal_ok case_prod_beta)
qed

subsection \<open>Setting up a rule\<close>

text \<open>A rule with no method is refused when its instance is named.\<close>

lemma ns_setup_none: "method p = NONE \<Longrightarrow> fst (ns_setup K p idata w) = PAM_SESSION_ERR"
  by (simp add: ns_setup_def poly_name_def name_of_method_def case_prod_beta)

lemma inst_init_no_script_ok:
  assumes "\<not> access_F_OK (NAMESPACE_INIT_SCRIPT K) w" and "fails w Sys_signal = None"
  shows "fst (inst_init K p ipath idata nd w) = PAM_SUCCESS"
  using assms
  by (auto simp: inst_init_def run_init_script_def access_F_OK_def c_signal_def case_prod_beta)

lemma isdir_new: "S_ISDIR (0x4000 OR (0x100 AND NOT u))"
proof -
  have "(0x100 AND NOT u) AND 0xF000 = (0x100 AND 0xF000) AND NOT u" for u :: mode_t
    by (simp add: and.assoc and.commute)
  then show ?thesis
    by (simp add: S_ISDIR_def bit.conj_disj_distrib2)
qed

lemma isdir_chmod: "S_ISDIR m \<Longrightarrow> S_ISDIR ((m AND 0xF000) OR (x AND 0xFFF))"
proof -
  have "(x AND 0xFFF) AND 0xF000 = x AND (0xFFF AND 0xF000)" for x :: mode_t
    by (simp only: and.assoc)
  then show "S_ISDIR m \<Longrightarrow> S_ISDIR ((m AND 0xF000) OR (x AND 0xFFF))"
    by (simp add: S_ISDIR_def bit.conj_disj_distrib2 and.assoc)
qed

text \<open>
  A rule of the method USER is set up with success whatever its two paths are, when the
  system calls succeed: nothing looks at the form of the paths.
\<close>

lemma ns_setup_user:
  assumes ready: "setup_ready K p idata w" and m: "method p = USER"
  shows "fst (ns_setup K p idata w) = PAM_SUCCESS \<and>
         fst (snd (ns_setup K p idata w)) = p \<and>
         mounts (snd (snd (ns_setup K p idata w)))
           = (instance_prefix p @ user idata, dir p) # mounts w"
proof -
  define ipath where "ipath = instance_prefix p @ user idata"
  from ready have f: "fails w c = None" for c
    by (simp add: setup_ready_def)
  from ready have fl: "PAMNS_SELINUX_ENABLED \<notin> flags idata" "PAMNS_GEN_HASH \<notin> flags idata"
    "length (user idata) \<le> NAMESPACE_MAX_DIR_LEN K"
    by (simp_all add: setup_ready_def)
  from ready m obtain sb where sb: "fs w (dir p) = Some sb" "S_ISDIR (st_mode sb)"
    by (auto simp: setup_ready_def)
  from ready m obtain ip where ip: "fs w (cut_at_last (CHR ''/'') ipath) = Some ip"
    "S_ISDIR (st_mode ip)" "st_mode ip AND 0x1FF = 0"
    and new: "fs w ipath = None"
    by (auto simp: setup_ready_def ipath_def)
  from ready have ns: "fs w (NAMESPACE_INIT_SCRIPT K) = None"
    by (simp add: setup_ready_def)
  from new sb have ne: "dir p \<noteq> ipath" by auto
  have pn: "poly_name K p idata w = (0, Some (user idata), None, None, w)"
    using m fl f by (simp add: poly_name_def name_of_method_def hash_name_def)
  have cp: "check_inst_parent ipath idata w = (0, w)"
    using ip f by (simp add: check_inst_parent_def c_stat_def Let_def)
  define i0 where "i0 = \<lparr>st_uid = euid w, st_gid = egid w,
                         st_mode = 0x4000 OR (0x100 AND NOT (umask w)), con = None\<rparr>"
  define w2 where "w2 = w\<lparr>fs := (fs w)(ipath \<mapsto> i0)\<rparr>"
  have mk: "c_mkdir ipath 0x100 w = (None, w2)"
    using new f by (simp add: c_mkdir_def w2_def i0_def)
  have d0: "S_ISDIR (st_mode i0)"
    by (simp add: i0_def isdir_new)
  have w2f: "fails w2 = fails w" "fs w2 ipath = Some i0" "mounts w2 = mounts w"
    by (simp_all add: w2_def)
  have op: "c_open_dir ipath w2 = Some ipath"
    using f d0 w2f by (simp add: c_open_dir_def)
  have lb: "label_new_dir ipath None None idata w2 = (True, w2)"
    using fl by (simp add: label_new_dir_def)
  have st: "c_fstat ipath w2 = Some i0"
    using f w2f by (simp add: c_fstat_def)
  define i1 where "i1 = (if st_uid i0 \<noteq> st_uid sb \<or> st_gid i0 \<noteq> st_gid sb
                         then i0\<lparr>st_uid := st_uid sb, st_gid := st_gid sb\<rparr> else i0)"
  define w2' where "w2' = w\<lparr>fs := (fs w)(ipath \<mapsto> i1)\<rparr>"
  have ch: "(if st_uid i0 \<noteq> st_uid sb \<or> st_gid i0 \<noteq> st_gid sb
             then c_fchown ipath (st_uid sb) (st_gid sb) w2 else (True, w2)) = (True, w2')"
    using f by (simp add: c_fchown_def w2_def w2'_def i1_def)
  define i2 where "i2 = i1\<lparr>st_mode := (st_mode i1 AND 0xF000) OR (st_mode sb AND 0xFFF AND 0xFFF)\<rparr>"
  define w3 where "w3 = w\<lparr>fs := (fs w)(ipath \<mapsto> i2)\<rparr>"
  have cm: "c_fchmod ipath (st_mode sb AND 0xFFF) w2' = (True, w3)"
    using f by (simp add: c_fchmod_def w2'_def w3_def i2_def)
  have d1: "S_ISDIR (st_mode i1)"
    using d0 by (simp add: i1_def)
  have d2: "S_ISDIR (st_mode i2)"
    using isdir_chmod [OF d1, of "st_mode sb AND 0xFFF"] by (simp add: i2_def)
  have ni: "new_instance_dir K p ipath None None sb idata w2 = inst_init K p ipath idata 1 w3"
    using ch cm by (auto simp: new_instance_dir_def op lb st split: if_splits)
  define w5 where "w5 = snd (inst_init K p ipath idata 1 w3)"
  have nsc: "\<not> access_F_OK (NAMESPACE_INIT_SCRIPT K) w3"
    using ns ready by (auto simp: access_F_OK_def w3_def setup_ready_def ipath_def)
  have r5: "fst (inst_init K p ipath idata 1 w3) = 0"
    using nsc f by (intro inst_init_no_script_ok) (simp_all add: w3_def)
  have w5f: "fs w5 = fs w3" "mounts w5 = mounts w" "fails w5 = fails w"
    using inst_init_no_script [OF nsc, of p ipath idata 1]
    by (simp_all add: w5_def w3_def)
  have ni': "new_instance_dir K p ipath None None sb idata w2 = (0, w5)"
    using ni r5 by (simp add: w5_def prod_eq_iff)
  have cd: "create_dirs K p ipath None None idata w = (0, p, ipath, w5)"
    using m sb f by (simp add: create_dirs_def c_stat_def cp mk ni')
  have mt: "c_mount ipath (dir p) True w5
              = (True, (call (Call_mount ipath (dir p)) w5)
                         \<lparr>mounts := (ipath, dir p) # mounts w\<rparr>)"
    using f w5f sb ne d2 by (simp add: c_mount_def Let_def w3_def)
  show ?thesis
    using m pn f cd mt by (simp add: ns_setup_def printf_s_def ipath_def [symmetric])
qed

lemma ns_setup_tmpfs:
  assumes "method p = TMPFS" and "\<forall>c. fails w c = None"
    and "fs w (dir p) = Some sb" and "S_ISDIR (st_mode sb)"
    and "fs w (NAMESPACE_INIT_SCRIPT K) = None"
  shows "fst (ns_setup K p idata w) = PAM_SUCCESS \<and>
         fst (snd (ns_setup K p idata w)) = p \<and>
         mounts (snd (snd (ns_setup K p idata w))) = (''tmpfs'', dir p) # mounts w"
proof -
  define w1 where "w1 = (call (Call_mount ''tmpfs'' (dir p)) w)
                           \<lparr>mounts := (''tmpfs'', dir p) # mounts w\<rparr>"
  have mt: "c_mount ''tmpfs'' (dir p) False w = (True, w1)"
    using assms by (simp add: c_mount_def Let_def w1_def)
  have nsc: "\<not> access_F_OK (NAMESPACE_INIT_SCRIPT K) w1"
    using assms(5) by (simp add: access_F_OK_def w1_def)
  have r: "fst (inst_init K p ''tmpfs'' idata 1 w1) = 0"
    using nsc assms(2) by (intro inst_init_no_script_ok) (simp_all add: w1_def)
  have "mounts (snd (inst_init K p ''tmpfs'' idata 1 w1)) = (''tmpfs'', dir p) # mounts w"
    using inst_init_no_script(2) [OF nsc, of p "''tmpfs''" idata 1] by (simp add: w1_def)
  with r mt assms(1) show ?thesis
    by (simp add: ns_setup_def case_prod_beta)
qed

subsection \<open>The override evaluator is an exclusive or\<close>

lemma ns_override_loop_truth:
  "num_uids p \<le> length (uid p) \<Longrightarrow>
   (ns_override_loop p u i \<noteq> 0) =
     ((u \<in> set (drop i (take (num_uids p) (uid p)))) \<noteq> (exclusive p \<noteq> 0))"
proof (induction p u i rule: ns_override_loop.induct)
  case (1 polyptr u i)
  show ?case
  proof (cases "i < num_uids polyptr")
    case False
    then show ?thesis
      by (subst ns_override_loop.simps) simp
  next
    case True
    with "1.prems" have len: "i < length (take (num_uids polyptr) (uid polyptr))"
      by simp
    have dr: "drop i (take (num_uids polyptr) (uid polyptr)) =
              uid polyptr ! i # drop (Suc i) (take (num_uids polyptr) (uid polyptr))"
      using Cons_nth_drop_Suc [OF len] True by simp
    show ?thesis
    proof (cases "u = uid polyptr ! i")
      case True
      with \<open>i < num_uids polyptr\<close> dr show ?thesis
        by (subst ns_override_loop.simps) (auto simp: c_not_def)
    next
      case False
      with \<open>i < num_uids polyptr\<close> dr "1.IH" "1.prems" show ?thesis
        by (subst ns_override_loop.simps) auto
    qed
  qed
qed

text \<open>
  C1.  For every rule whose array holds its \<open>num_uids\<close> uids and for every uid,
  \<^verbatim>\<open>ns_override\<close> is true exactly when membership of the uid in the override set differs
  from \<open>exclusive\<close> (the exclusive or of the two): with \<open>exclusive\<close> false it is true iff
  the uid is in the set, with \<open>exclusive\<close> true it is true iff the uid is not in the set.
\<close>

theorem ns_override_xor:
  assumes "num_uids p \<le> length (uid p)"
  shows "((ns_override p idata u \<noteq> 0) =
            ((u \<in> set (take (num_uids p) (uid p))) \<noteq> (exclusive p \<noteq> 0))) \<and>
         (exclusive p = 0 \<longrightarrow>
            (ns_override p idata u \<noteq> 0) = (u \<in> set (take (num_uids p) (uid p)))) \<and>
         (exclusive p \<noteq> 0 \<longrightarrow>
            (ns_override p idata u \<noteq> 0) = (u \<notin> set (take (num_uids p) (uid p))))"
  using ns_override_loop_truth [OF assms, of u 0] by (auto simp: ns_override_def)

theorem ns_override_xor_witness:
  "ns_override \<lparr>dir = ''/tmp'', instance_prefix = ''/tmp-inst/'', method = USER,
      num_uids = 2, uid = [0, 1000], exclusive = 0\<rparr> idata0 1000 \<noteq> 0 \<and>
   ns_override \<lparr>dir = ''/tmp'', instance_prefix = ''/tmp-inst/'', method = USER,
      num_uids = 2, uid = [0, 1000], exclusive = 1\<rparr> idata0 1000 = 0"
  using
    ns_override_xor [of "\<lparr>dir = ''/tmp'', instance_prefix = ''/tmp-inst/'', method = USER,
      num_uids = 2, uid = [0, 1000], exclusive = 0\<rparr>" idata0 1000]
    ns_override_xor [of "\<lparr>dir = ''/tmp'', instance_prefix = ''/tmp-inst/'', method = USER,
      num_uids = 2, uid = [0, 1000], exclusive = 1\<rparr>" idata0 1000]
  by simp

subsection \<open>Requesting identity\<close>

text \<open>
  C6 (as amended).  In \<^verbatim>\<open>setup_namespace\<close> the requesting uid \<open>req_uid\<close> is the uid that
  the user database gives for \<^verbatim>\<open>PAM_RUSER\<close> when that item is present and known; whenever
  the item cannot be read, is absent or names no known user, it is \<^verbatim>\<open>getuid()\<close>, the real
  uid of the calling process, and not the uid of the session's user.
\<close>

theorem req_uid_hint_or_getuid:
  "(fails w Sys_pam_get_item = None \<and> pam_ruser w = Some n \<and> getpwnam w n = Some pwd
      \<longrightarrow> req_uid w = pw_uid pwd) \<and>
   (fails w Sys_pam_get_item \<noteq> None \<or> pam_ruser w = None
      \<or> (\<exists>m. pam_ruser w = Some m \<and> getpwnam w m = None)
      \<longrightarrow> req_uid w = ruid w)"
  by (auto simp: req_uid_def pam_get_item_def split: option.splits)

theorem req_uid_hint_or_getuid_witness:
  "req_uid (world0\<lparr>pam_ruser := Some ''alice''\<rparr>) = 1000 \<and> req_uid world0 = 0"
  using req_uid_hint_or_getuid [of "world0\<lparr>pam_ruser := Some ''alice''\<rparr>" "''alice''"
          "\<lparr>pw_uid = 1000, pw_dir = ''/home/alice''\<rparr>"]
        req_uid_hint_or_getuid [of world0]
  by (simp add: world0_def passwd0_def)

text \<open>
  C6 as stated fails: for a session of alice (uid 1000) opened by a process of root
  with no \<^verbatim>\<open>PAM_RUSER\<close>, the requesting uid is 0, not the session uid.
\<close>

theorem req_uid_is_not_session_uid:
  "pam_ruser world0 = None \<and> getpwnam world0 ''alice'' = Some \<lparr>pw_uid = uid_sess idata0, pw_dir = ''/home/alice''\<rparr>
   \<and> uid_sess idata0 = 1000 \<and> req_uid world0 = 0 \<and> req_uid world0 \<noteq> uid_sess idata0"
  by (simp add: world0_def idata0_def passwd0_def req_uid_def pam_get_item_def)

subsection \<open>Nothing to polyinstantiate\<close>

lemma need_poly_none:
  "\<forall>p\<in>set ps. ns_override p idata (uid_sess idata) \<noteq> 0
       \<and> (unmnt = NO_UNMNT \<or> ns_override p idata req \<noteq> 0)
   \<Longrightarrow> need_poly idata unmnt req ps = 0"
  by (induction ps) auto

text \<open>
  C3.  If for every rule of the list \<^verbatim>\<open>ns_override\<close> is true for the session uid, and
  for every rule the unmount mode is \<^verbatim>\<open>NO_UNMNT\<close> or \<^verbatim>\<open>ns_override\<close> is true for the
  requesting uid too, then \<^verbatim>\<open>setup_namespace\<close> returns \<^verbatim>\<open>PAM_SUCCESS\<close>, and all it does is
  free the rule list: \<^verbatim>\<open>unshare\<close> is not called, the slot of the session is not written, and
  neither the mount table nor the file system changes.
\<close>

theorem setup_namespace_nothing_needed:
  assumes "\<forall>p\<in>set (polydirs_ptr idata).
             ns_override p idata (uid_sess idata) \<noteq> 0
             \<and> (unmnt = NO_UNMNT \<or> ns_override p idata (req_uid w) \<noteq> 0)"
  shows "fst (setup_namespace K idata unmnt w) = PAM_SUCCESS \<and>
         trace (snd (snd (setup_namespace K idata unmnt w))) = Call_del_polydir_list # trace w \<and>
         pam_data (snd (snd (setup_namespace K idata unmnt w))) = pam_data w \<and>
         mounts (snd (snd (setup_namespace K idata unmnt w))) = mounts w \<and>
         fs (snd (snd (setup_namespace K idata unmnt w))) = fs w"
  using need_poly_none [OF assms]
  by (simp add: setup_namespace_def del_polydir_list_def call_def)

theorem setup_namespace_nothing_needed_witness:
  "fst (setup_namespace K0 (idata0\<lparr>polydirs_ptr := [rule_skip]\<rparr>) UNMNT_REMNT world0) = PAM_SUCCESS \<and>
   trace (snd (snd (setup_namespace K0 (idata0\<lparr>polydirs_ptr := [rule_skip]\<rparr>) UNMNT_REMNT world0)))
     = [Call_del_polydir_list] \<and>
   pam_data (snd (snd (setup_namespace K0 (idata0\<lparr>polydirs_ptr := [rule_skip]\<rparr>) UNMNT_REMNT world0)))
     = None"
proof -
  have h: "\<forall>p\<in>set (polydirs_ptr (idata0\<lparr>polydirs_ptr := [rule_skip]\<rparr>)).
             ns_override p (idata0\<lparr>polydirs_ptr := [rule_skip]\<rparr>)
               (uid_sess (idata0\<lparr>polydirs_ptr := [rule_skip]\<rparr>)) \<noteq> 0
             \<and> (UNMNT_REMNT = NO_UNMNT
                \<or> ns_override p (idata0\<lparr>polydirs_ptr := [rule_skip]\<rparr>) (req_uid world0) \<noteq> 0)"
    by code_simp
  from setup_namespace_nothing_needed [OF h, of K0] show ?thesis
    by (simp add: world0_def)
qed

subsection \<open>Init hook runner\<close>

text \<open>
  C4.  The claim asks a session error of \<^verbatim>\<open>inst_init\<close> when the child exits with a code
  other than 0.  The code does not: when \<^verbatim>\<open>signal\<close> succeeds, \<^verbatim>\<open>inst_init\<close> returns
  \<^verbatim>\<open>PAM_SUCCESS\<close> when the script is missing, \<^verbatim>\<open>PAM_SESSION_ERR\<close> when it is present and
  not executable, when \<^verbatim>\<open>fork\<close> or \<^verbatim>\<open>waitpid\<close> fails and when the child is ended by a
  signal, and \<^verbatim>\<open>PAM_SUCCESS\<close> whenever the child exits, with whatever code; the code 1 with
  which the child itself reports a failed \<^verbatim>\<open>execl\<close> is among them.
\<close>

theorem inst_init_result:
  assumes "fails w Sys_signal = None"
  shows "fst (inst_init K p ipath idata newdir w) =
           (if \<not> access_F_OK (NAMESPACE_INIT_SCRIPT K) w then PAM_SUCCESS
            else if \<not> access_X_OK (NAMESPACE_INIT_SCRIPT K) w then PAM_SESSION_ERR
            else if fails w Sys_fork \<noteq> None then PAM_SESSION_ERR
            else if fails w Sys_waitpid \<noteq> None then PAM_SESSION_ERR
            else case fst (child idata
                     [NAMESPACE_INIT_SCRIPT K, NAMESPACE_INIT_SCRIPT K, dir p, ipath,
                      if newdir \<noteq> 0 then ''1'' else ''0'', user idata] w) of
                   Exited n \<Rightarrow> PAM_SUCCESS
                 | Signaled n \<Rightarrow> PAM_SESSION_ERR)"
proof -
  have same: "fst (child idata argv (w\<lparr>sigchld := SIG_DFL\<rparr>)) = fst (child idata argv w)" for argv
    by (auto simp: child_def)
  show ?thesis
    by (simp add: inst_init_fst [OF assms] run_init_script_fst same access_F_OK_def access_X_OK_def)
qed

theorem inst_init_result_witness:
  "fst (child idata0 [''/etc/security/namespace.init'', ''/etc/security/namespace.init'',
          ''/tmp'', ''/tmp-inst/alice'', ''1'', ''alice''] world_init_fails) = Exited 1 \<and>
   fst (inst_init K0 rule_user ''/tmp-inst/alice'' idata0 1 world_init_fails) = PAM_SUCCESS"
proof -
  have h: "fails world_init_fails Sys_signal = None"
    by (simp add: world_init_fails_def world0_def)
  from inst_init_result [OF h, of K0 rule_user "''/tmp-inst/alice''" idata0 1] show ?thesis
    by (simp add: world_init_fails_def world0_def K0_def access_F_OK_def access_X_OK_def
          child_def idata0_def rule_user_def run_prog_def call_def)
qed

subsection \<open>Teardown after a failed unmount\<close>

text \<open>
  C5.  The claim asks that the cleanup of the temporary directories runs after the
  unmount pass whatever its outcome.  The code does not: when the unmount of a rule that
  is not overridden fails, \<^verbatim>\<open>orig_namespace\<close> returns \<^verbatim>\<open>PAM_SESSION_ERR\<close> from inside the
  loop, with the world as the failed \<^verbatim>\<open>umount\<close> and its diagnostic left it: the file system
  is as it was and no program was run, so no directory was removed.
\<close>

theorem orig_namespace_failure_skips_cleanup:
  assumes "polydirs_ptr idata = pre @ r # post"
    and "orig_loop idata pre w = (True, w1)"
    and "ns_override r idata (uid_sess idata) = 0"
    and "fst (c_umount (dir r) w1) \<noteq> None"
  shows "orig_namespace idata w =
           (PAM_SESSION_ERR,
            pam_syslog LOG_ERR ''Unmount of %s failed, %m'' (snd (c_umount (dir r) w1))) \<and>
         fs (snd (orig_namespace idata w)) = fs w \<and>
         (\<forall>argv. Call_exec argv \<in> set (trace (snd (orig_namespace idata w)))
                   \<longrightarrow> Call_exec argv \<in> set (trace w))"
proof -
  have res: "orig_namespace idata w =
           (PAM_SESSION_ERR,
            pam_syslog LOG_ERR ''Unmount of %s failed, %m'' (snd (c_umount (dir r) w1)))"
    by (simp add: orig_namespace_def assms(1) orig_loop_stops [OF assms(2-4)])
  have w1: "fs w1 = fs w \<and> (\<forall>argv. Call_exec argv \<in> set (trace w1) \<longleftrightarrow> Call_exec argv \<in> set (trace w))"
    using orig_loop_fields [of idata pre w] assms(2) by simp
  show ?thesis
    by (simp add: res w1)
qed

theorem orig_namespace_failure_skips_cleanup_witness:
  "fst (orig_namespace (idata0\<lparr>polydirs_ptr := [rule_tmpdir_made, rule_user]\<rparr>) world_busy) = PAM_SESSION_ERR \<and>
   fs (snd (orig_namespace (idata0\<lparr>polydirs_ptr := [rule_tmpdir_made, rule_user]\<rparr>) world_busy))
      ''/tmp-inst/vt.Ab3dE9'' = Some (dir_inode 0 0 0x3FF) \<and>
   trace (snd (orig_namespace (idata0\<lparr>polydirs_ptr := [rule_tmpdir_made, rule_user]\<rparr>) world_busy))
     = [Syslog LOG_ERR ''Unmount of %s failed, %m'', Call_umount ''/var/tmp'']"
proof -
  have h1: "polydirs_ptr (idata0\<lparr>polydirs_ptr := [rule_tmpdir_made, rule_user]\<rparr>) = [] @ rule_tmpdir_made # [rule_user]"
    by simp
  have h2: "orig_loop (idata0\<lparr>polydirs_ptr := [rule_tmpdir_made, rule_user]\<rparr>) [] world_busy = (True, world_busy)"
    by simp
  have h3: "ns_override rule_tmpdir_made (idata0\<lparr>polydirs_ptr := [rule_tmpdir_made, rule_user]\<rparr>)
              (uid_sess (idata0\<lparr>polydirs_ptr := [rule_tmpdir_made, rule_user]\<rparr>)) = 0"
    by code_simp
  have h4: "fst (c_umount (dir rule_tmpdir_made) world_busy) \<noteq> None"
    by (simp add: c_umount_def world_busy_def world0_def rule_tmpdir_made_def rule_tmpdir_def)
  from orig_namespace_failure_skips_cleanup [OF h1 h2 h3 h4] show ?thesis
    by (simp add: world_busy_def world0_def rule_tmpdir_made_def rule_tmpdir_def)
qed

subsection \<open>Closing a session\<close>

text \<open>
  C10.  When \<^verbatim>\<open>pam_sm_close_session\<close> retrieves a rule list from the slot (it was not
  told \<^verbatim>\<open>no_unmount_on_close\<close>, the user is known, the slot holds a list that is not
  empty), it returns \<^verbatim>\<open>PAM_SUCCESS\<close> and leaves the slot cleared, whatever
  \<^verbatim>\<open>orig_namespace\<close> returned.  In particular, when the unmount of a rule fails,
  \<^verbatim>\<open>orig_namespace\<close> returns \<^verbatim>\<open>PAM_SESSION_ERR\<close>, and the world after the call is the world
  after that failed \<^verbatim>\<open>umount\<close>, with its diagnostic logged and the slot cleared: no rule
  after it is unmounted.
\<close>

theorem close_session_returns_success:
  assumes "''no_unmount_on_close'' \<notin> set argv"
    and "fails w Sys_pam_get_item = None"
    and "pam_user w = Some name"
    and "getpwnam w name = Some pwd"
    and "pam_data w = Some l"
    and "l \<noteq> []"
  shows "fst (pam_sm_close_session K argv w) = PAM_SUCCESS \<and>
         pam_data (snd (pam_sm_close_session K argv w)) = Some [] \<and>
         (\<forall>pre r post w1.
            l = pre @ r # post \<and>
            orig_loop (close_idata K argv name pwd l w) pre w = (True, w1) \<and>
            ns_override r (close_idata K argv name pwd l w) (pw_uid pwd) = 0 \<and>
            fst (c_umount (dir r) w1) \<noteq> None
            \<longrightarrow> fst (orig_namespace (close_idata K argv name pwd l w) w) = PAM_SESSION_ERR \<and>
                snd (pam_sm_close_session K argv w) =
                  (pam_syslog LOG_ERR ''Unmount of %s failed, %m'' (snd (c_umount (dir r) w1)))
                    \<lparr>pam_data := Some []\<rparr>)"
proof -
  let ?idata = "close_idata K argv name pwd l w"
  have flag: "PAMNS_NO_UNMOUNT_ON_CLOSE \<notin> close_flags argv w"
    using assms(1) by (simp add: close_flags_def)
  have run: "pam_sm_close_session K argv w =
               (PAM_SUCCESS, snd (pam_set_data [] (snd (orig_namespace ?idata w))))"
    using flag assms(2-6)
    by (simp add: pam_sm_close_session_def pam_get_item_def pam_get_data_def case_prod_beta)
  have slot: "pam_data (snd (orig_namespace ?idata w)) = Some l"
    using assms(5) by simp
  have cleared: "snd (pam_set_data [] (snd (orig_namespace ?idata w)))
                   = (snd (orig_namespace ?idata w))\<lparr>pam_data := Some []\<rparr>"
    using slot by (simp add: pam_set_data_def)
  have stop: "fst (orig_namespace ?idata w) = PAM_SESSION_ERR \<and>
              snd (pam_sm_close_session K argv w) =
                (pam_syslog LOG_ERR ''Unmount of %s failed, %m'' (snd (c_umount (dir r) w1)))
                  \<lparr>pam_data := Some []\<rparr>"
    if "l = pre @ r # post" "orig_loop ?idata pre w = (True, w1)"
       "ns_override r ?idata (pw_uid pwd) = 0" "fst (c_umount (dir r) w1) \<noteq> None"
    for pre r post w1
  proof -
    have u: "uid_sess ?idata = pw_uid pwd"
      by (simp add: close_idata_def)
    have pl: "polydirs_ptr ?idata = pre @ r # post"
      using that(1) by (simp add: close_idata_def)
    from that(3) have o: "ns_override r ?idata (uid_sess ?idata) = 0"
      by (simp add: u)
    have "orig_loop ?idata (polydirs_ptr ?idata) w =
            (False, pam_syslog LOG_ERR ''Unmount of %s failed, %m'' (snd (c_umount (dir r) w1)))"
      unfolding pl by (rule orig_loop_stops [OF that(2) o that(4)])
    then have "orig_namespace ?idata w =
            (PAM_SESSION_ERR,
             pam_syslog LOG_ERR ''Unmount of %s failed, %m'' (snd (c_umount (dir r) w1)))"
      by (simp add: orig_namespace_def)
    then show ?thesis
      using run cleared by simp
  qed
  have P1: "fst (pam_sm_close_session K argv w) = PAM_SUCCESS"
    using run by simp
  have P2: "pam_data (snd (pam_sm_close_session K argv w)) = Some []"
    using run cleared by simp
  from P1 P2 stop show ?thesis
    by blast
qed

theorem close_session_returns_success_witness:
  "fst (orig_namespace (close_idata K0 [] ''alice'' \<lparr>pw_uid = 1000, pw_dir = ''/home/alice''\<rparr>
          [rule_tmpdir_made, rule_user] world_busy) world_busy) = PAM_SESSION_ERR \<and>
   fst (pam_sm_close_session K0 [] world_busy) = PAM_SUCCESS \<and>
   pam_data (snd (pam_sm_close_session K0 [] world_busy)) = Some [] \<and>
   trace (snd (pam_sm_close_session K0 [] world_busy))
     = [Syslog LOG_ERR ''Unmount of %s failed, %m'', Call_umount ''/var/tmp'']"
proof -
  let ?pwd = "\<lparr>pw_uid = 1000, pw_dir = ''/home/alice''\<rparr>"
  let ?l = "[rule_tmpdir_made, rule_user]"
  let ?idata = "close_idata K0 [] ''alice'' ?pwd ?l world_busy"
  have h1: "''no_unmount_on_close'' \<notin> set []" by simp
  have h2: "fails world_busy Sys_pam_get_item = None"
    and h3: "pam_user world_busy = Some ''alice''"
    and h4: "getpwnam world_busy ''alice'' = Some ?pwd"
    and h5: "pam_data world_busy = Some ?l"
    by (simp_all add: world_busy_def world0_def passwd0_def)
  have h6: "?l \<noteq> []" by simp
  have a: "?l = [] @ rule_tmpdir_made # [rule_user]" by simp
  have b: "orig_loop ?idata [] world_busy = (True, world_busy)" by simp
  have c: "ns_override rule_tmpdir_made ?idata (pw_uid ?pwd) = 0" by code_simp
  have d: "fst (c_umount (dir rule_tmpdir_made) world_busy) \<noteq> None"
    by (simp add: c_umount_def world_busy_def world0_def rule_tmpdir_made_def rule_tmpdir_def)
  from close_session_returns_success [OF h1 h2 h3 h4 h5 h6, of K0] a b c d
  have "fst (pam_sm_close_session K0 [] world_busy) = PAM_SUCCESS \<and>
        pam_data (snd (pam_sm_close_session K0 [] world_busy)) = Some [] \<and>
        fst (orig_namespace ?idata world_busy) = PAM_SESSION_ERR \<and>
        snd (pam_sm_close_session K0 [] world_busy) =
          (pam_syslog LOG_ERR ''Unmount of %s failed, %m''
             (snd (c_umount (dir rule_tmpdir_made) world_busy)))\<lparr>pam_data := Some []\<rparr>"
    by blast
  then show ?thesis
    by (simp add: world_busy_def world0_def rule_tmpdir_made_def rule_tmpdir_def)
qed

subsection \<open>Instance naming\<close>

text \<open>
  C8 (as amended).  Let \<^verbatim>\<open>poly_name\<close> compute a name with success.  For a rule of the
  method \<^verbatim>\<open>USER\<close>, \<^verbatim>\<open>LEVEL\<close> or \<^verbatim>\<open>CONTEXT\<close>, let \<open>base\<close> be the name before the hashing
  step (the user name, or the raw context, an underscore and the user name).  The digest
  of \<open>base\<close> has 32 hexadecimal characters and depends on \<open>base\<close> alone.  With
  \<^verbatim>\<open>PAMNS_GEN_HASH\<close> the name returned is the digest; without it, a \<open>base\<close> longer than
  \<^verbatim>\<open>NAMESPACE_MAX_DIR_LEN\<close> is cut and followed by an underscore and the digest, which gives
  a name of exactly \<^verbatim>\<open>NAMESPACE_MAX_DIR_LEN\<close> characters (the budget has room for the
  digest and the underscore), and a shorter \<open>base\<close> is returned as it is.  For a rule
  of the method \<^verbatim>\<open>TMPDIR\<close> or \<^verbatim>\<open>TMPFS\<close> the name is empty, whatever the flag, and no digest
  is computed: \<^verbatim>\<open>poly_name\<close> returns the same with any other digest function.
\<close>

theorem poly_name_hashing:
  assumes "poly_name K p idata w = (PAM_SUCCESS, Some name, ic, oc, w')"
    and "2 * MD5_DIGEST_LENGTH + 1 \<le> NAMESPACE_MAX_DIR_LEN K"
  shows "(method p = USER \<or> method p = LEVEL \<or> method p = CONTEXT \<longrightarrow>
          (\<exists>base.
           (method p = USER \<longrightarrow> base = user idata) \<and>
           (method p \<noteq> USER \<longrightarrow>
              (\<exists>raw. trans_to_raw w ic = Some raw \<and> base = printf_s raw @ ''_'' @ user idata)) \<and>
           length (md5hex K base) = 32 \<and>
           set (md5hex K base) \<subseteq> hexchars \<and>
           (\<forall>w2. fails w2 Sys_malloc = None \<longrightarrow> fst (md5hash K base w2) = Some (md5hex K base)) \<and>
           (PAMNS_GEN_HASH \<in> flags idata \<longrightarrow> name = md5hex K base) \<and>
           (PAMNS_GEN_HASH \<notin> flags idata \<and> NAMESPACE_MAX_DIR_LEN K < length base \<longrightarrow>
              name = take (NAMESPACE_MAX_DIR_LEN K - 33) base @ ''_'' @ md5hex K base \<and>
              length name = NAMESPACE_MAX_DIR_LEN K) \<and>
           (PAMNS_GEN_HASH \<notin> flags idata \<and> length base \<le> NAMESPACE_MAX_DIR_LEN K \<longrightarrow>
              name = base))) \<and>
         (method p = TMPDIR \<or> method p = TMPFS \<longrightarrow>
            name = [] \<and> (\<forall>f. poly_name (K\<lparr>MD5 := f\<rparr>) p idata w = poly_name K p idata w))"
proof -
  obtain rc0 ic0 oc0 w1 where fc:
    "(if PAMNS_SELINUX_ENABLED \<in> flags idata then form_context p idata w
      else (PAM_SUCCESS, None, None, w)) = (rc0, ic0, oc0, w1)"
    by (metis prod_cases4)
  have w1: "trans_to_raw w1 = trans_to_raw w"
    using fc by (auto simp: form_context_def pam_syslog_def split: if_splits option.splits)
  from assms(1) fc have rc0: "rc0 = 0"
    by (auto simp: poly_name_def split: if_splits)
  from assms(1) fc rc0 obtain b base w2 where
    nm: "name_of_method p idata ic0 w1 = (Inr (b, base), w2)"
    by (auto simp: poly_name_def split: prod.splits sum.splits)
  have hashed: "\<exists>base.
           (method p = USER \<longrightarrow> base = user idata) \<and>
           (method p \<noteq> USER \<longrightarrow>
              (\<exists>raw. trans_to_raw w ic = Some raw \<and> base = printf_s raw @ ''_'' @ user idata)) \<and>
           length (md5hex K base) = 32 \<and>
           set (md5hex K base) \<subseteq> hexchars \<and>
           (\<forall>w2. fails w2 Sys_malloc = None \<longrightarrow> fst (md5hash K base w2) = Some (md5hex K base)) \<and>
           (PAMNS_GEN_HASH \<in> flags idata \<longrightarrow> name = md5hex K base) \<and>
           (PAMNS_GEN_HASH \<notin> flags idata \<and> NAMESPACE_MAX_DIR_LEN K < length base \<longrightarrow>
              name = take (NAMESPACE_MAX_DIR_LEN K - 33) base @ ''_'' @ md5hex K base \<and>
              length name = NAMESPACE_MAX_DIR_LEN K) \<and>
           (PAMNS_GEN_HASH \<notin> flags idata \<and> length base \<le> NAMESPACE_MAX_DIR_LEN K \<longrightarrow>
              name = base)"
    if meth: "method p = USER \<or> method p = LEVEL \<or> method p = CONTEXT"
  proof -
    from nm meth have b: "b = False"
      by (auto simp: name_of_method_def split: polymethod.splits option.splits if_splits)
    from assms(1) fc rc0 nm b obtain w3 where
      hn: "hash_name K idata base w2 = (Some name, w3)" and ic: "ic = ic0"
      by (auto simp: poly_name_def split: prod.splits option.splits)
    have base: "(method p = USER \<longrightarrow> base = user idata) \<and>
             (method p \<noteq> USER \<longrightarrow>
                (\<exists>raw. trans_to_raw w ic = Some raw \<and> base = printf_s raw @ ''_'' @ user idata))"
      using nm meth w1 ic
      by (auto simp: name_of_method_def split: polymethod.splits option.splits if_splits)
    have m: "33 \<le> NAMESPACE_MAX_DIR_LEN K"
      using assms(2) by (simp add: MD5_DIGEST_LENGTH_def)
    have name: "name = (if PAMNS_GEN_HASH \<in> flags idata then md5hex K base
                 else if NAMESPACE_MAX_DIR_LEN K < length base
                 then take (NAMESPACE_MAX_DIR_LEN K - 33) base @ ''_'' @ md5hex K base
                 else base)"
      using hash_name_Some [OF hn] m by (simp add: printf_prec_s_def nat_diff_distrib' del: of_nat_diff)
    have c1: "PAMNS_GEN_HASH \<in> flags idata \<longrightarrow> name = md5hex K base"
      using name by simp
    have c2: "PAMNS_GEN_HASH \<notin> flags idata \<and> NAMESPACE_MAX_DIR_LEN K < length base \<longrightarrow>
                name = take (NAMESPACE_MAX_DIR_LEN K - 33) base @ ''_'' @ md5hex K base \<and>
                length name = NAMESPACE_MAX_DIR_LEN K"
      using name m by (auto simp: length_md5hex min_def)
    have c3: "PAMNS_GEN_HASH \<notin> flags idata \<and> length base \<le> NAMESPACE_MAX_DIR_LEN K \<longrightarrow>
                name = base"
      using name by simp
    have det: "\<forall>w2. fails w2 Sys_malloc = None \<longrightarrow> fst (md5hash K base w2) = Some (md5hex K base)"
      by (simp add: md5hash_def)
    from base c1 c2 c3 det length_md5hex [of K base] set_md5hex [of K base] show ?thesis
      by blast
  qed
  have plain: "name = [] \<and> (\<forall>f. poly_name (K\<lparr>MD5 := f\<rparr>) p idata w = poly_name K p idata w)"
    if meth: "method p = TMPDIR \<or> method p = TMPFS"
  proof -
    from nm meth have b: "b = True" "base = []"
      by (auto simp: name_of_method_def split: polymethod.splits option.splits if_splits)
    from assms(1) fc rc0 nm b have "name = []"
      by (auto simp: poly_name_def split: prod.splits option.splits)
    moreover have "poly_name (K\<lparr>MD5 := f\<rparr>) p idata w = poly_name K p idata w" for f
      using meth
      by (auto simp: poly_name_def name_of_method_def case_prod_beta split: if_splits)
    ultimately show ?thesis by simp
  qed
  from hashed plain show ?thesis by blast
qed

theorem poly_name_hashing_witness:
  "poly_name K0 rule_user idata_gen_hash world0
     = (PAM_SUCCESS, Some (md5hex K0 ''alice''), None, None, world0) \<and>
   length (md5hex K0 ''alice'') = 32 \<and>
   poly_name K0 rule_user idata_long world0
     = (PAM_SUCCESS, Some (replicate 47 (CHR ''a'') @ ''_'' @ md5hex K0 (replicate 100 (CHR ''a''))),
        None, None, world0) \<and>
   length (replicate 47 (CHR ''a'') @ ''_'' @ md5hex K0 (replicate 100 (CHR ''a'')))
     = NAMESPACE_MAX_DIR_LEN K0 \<and>
   poly_name K0 rule_tmpfs idata_gen_hash world0 = (PAM_SUCCESS, Some [], None, None, world0) \<and>
   poly_name (K0\<lparr>MD5 := (\<lambda>s i. 0)\<rparr>) rule_tmpfs idata_gen_hash world0
     = (PAM_SUCCESS, Some [], None, None, world0)"
proof -
  let ?long = "replicate 47 (CHR ''a'') @ ''_'' @ md5hex K0 (replicate 100 (CHR ''a''))"
  have h1: "poly_name K0 rule_user idata_gen_hash world0
     = (PAM_SUCCESS, Some (md5hex K0 ''alice''), None, None, world0)"
    by (simp add: poly_name_def name_of_method_def hash_name_def md5hash_def rule_user_def
          idata_gen_hash_def idata0_def world0_def)
  have h1': "poly_name K0 rule_user idata_long world0 = (PAM_SUCCESS, Some ?long, None, None, world0)"
    by (simp add: poly_name_def name_of_method_def hash_name_def md5hash_def rule_user_def
          idata_long_def idata0_def world0_def K0_def printf_prec_s_def length_md5hex)
  have h1'': "poly_name K0 rule_tmpfs idata_gen_hash world0 = (PAM_SUCCESS, Some [], None, None, world0)"
    by (simp add: poly_name_def name_of_method_def rule_tmpfs_def idata_gen_hash_def idata0_def
          world0_def)
  have h3: "2 * MD5_DIGEST_LENGTH + 1 \<le> NAMESPACE_MAX_DIR_LEN K0"
    by (simp add: MD5_DIGEST_LENGTH_def K0_def)
  have u: "method rule_user = USER" by (simp add: rule_user_def)
  have t: "method rule_tmpfs = TMPFS" by (simp add: rule_tmpfs_def)
  have f: "PAMNS_GEN_HASH \<notin> flags idata_long" by (simp add: idata_long_def idata0_def)
  have l: "NAMESPACE_MAX_DIR_LEN K0 < length (user idata_long)"
    by (simp add: idata_long_def K0_def)
  from poly_name_hashing [OF h1 h3] have a: "length (md5hex K0 ''alice'') = 32"
    using u by (auto simp: idata_gen_hash_def idata0_def)
  from poly_name_hashing [OF h1' h3] have b: "length ?long = NAMESPACE_MAX_DIR_LEN K0"
    using u f l by blast
  from poly_name_hashing [OF h1'' h3] t
  have "\<forall>f. poly_name (K0\<lparr>MD5 := f\<rparr>) rule_tmpfs idata_gen_hash world0
          = poly_name K0 rule_tmpfs idata_gen_hash world0"
    by blast
  then have c: "poly_name (K0\<lparr>MD5 := (\<lambda>s i. 0)\<rparr>) rule_tmpfs idata_gen_hash world0
     = (PAM_SUCCESS, Some [], None, None, world0)"
    using h1'' by simp
  from h1 h1' h1'' a b c show ?thesis
    by blast
qed

text \<open>
  C8 as stated fails for the methods \<^verbatim>\<open>TMPDIR\<close> and \<^verbatim>\<open>TMPFS\<close>: \<^verbatim>\<open>poly_name\<close> returns the
  empty name for them before the hashing step, so with \<^verbatim>\<open>PAMNS_GEN_HASH\<close> set the name is
  not replaced by a digest.
\<close>

theorem poly_name_tmpdir_not_hashed:
  "PAMNS_GEN_HASH \<in> flags idata_gen_hash \<and> method rule_tmpdir = TMPDIR \<and>
   poly_name K0 rule_tmpdir idata_gen_hash world0 = (PAM_SUCCESS, Some [], None, None, world0) \<and>
   length (md5hex K0 []) = 32 \<and> [] \<noteq> md5hex K0 []"
proof -
  have "length (md5hex K0 []) = 32" by (rule length_md5hex)
  moreover from this have "[] \<noteq> md5hex K0 []" by auto
  ultimately show ?thesis
    by (simp add: poly_name_def name_of_method_def rule_tmpdir_def idata_gen_hash_def idata0_def
          world0_def)
qed

subsection \<open>Directory materializer\<close>

text \<open>
  C7 (as amended).  For a rule whose method is neither \<^verbatim>\<open>TMPDIR\<close> nor \<^verbatim>\<open>TMPFS\<close>, once the
  directory to polyinstantiate and the parent of the instance have passed their checks:
  if \<^verbatim>\<open>mkdir\<close> says that the instance directory exists already, \<^verbatim>\<open>create_dirs\<close> creates
  nothing and changes nothing before it calls the init hook (with \<^verbatim>\<open>newdir = 0\<close>) on
  the world as it found it, and returns what the hook returns; so a path that no program
  changes shows at the end what it showed at the start.  And whenever \<^verbatim>\<open>create_dirs\<close>
  succeeds after \<^verbatim>\<open>mkdir\<close> has created the instance directory, the init hook was called
  (with \<^verbatim>\<open>newdir = 1\<close>) on a world in which the directory's owner, group and permission
  bits (the mode under the mask 07777) are those of the directory to polyinstantiate;
  they are still when \<^verbatim>\<open>create_dirs\<close> returns, if no program changes what the path of
  the instance shows.
\<close>

theorem create_dirs_reuse_or_copy:
  assumes "method p \<noteq> TMPDIR" and "method p \<noteq> TMPFS"
    and "c_stat (dir p) w = Some statbuf"
    and "S_ISDIR (st_mode statbuf)"
    and "fst (check_inst_parent ipath idata w) = 0"
  shows "(fst (c_mkdir ipath 0x100 w) = Some EEXIST \<longrightarrow>
            create_dirs K p ipath ic oc idata w =
              (fst (inst_init K p ipath idata 0 w), p, ipath, snd (inst_init K p ipath idata 0 w)) \<and>
            (\<forall>q. keeps_path (prog_effect w) q \<longrightarrow>
               fs (snd (snd (snd (create_dirs K p ipath ic oc idata w)))) q = fs w q)) \<and>
         (fst (c_mkdir ipath 0x100 w) = None \<and>
          fst (create_dirs K p ipath ic oc idata w) = PAM_SUCCESS \<longrightarrow>
            (\<exists>w3 i. create_dirs K p ipath ic oc idata w =
                      (PAM_SUCCESS, p, ipath, snd (inst_init K p ipath idata 1 w3)) \<and>
                    fst (inst_init K p ipath idata 1 w3) = PAM_SUCCESS \<and>
                    fs w3 ipath = Some i \<and>
                    st_uid i = st_uid statbuf \<and> st_gid i = st_gid statbuf \<and>
                    st_mode i AND 0xFFF = st_mode statbuf AND 0xFFF \<and>
                    (keeps_path (prog_effect w) ipath \<longrightarrow>
                       fs (snd (snd (snd (create_dirs K p ipath ic oc idata w)))) ipath = Some i)))"
proof -
  have par: "check_inst_parent ipath idata w = (0, w)"
    using assms(5) check_inst_parent_ok [of ipath idata w] by (simp add: prod_eq_iff)
  have reuse: "create_dirs K p ipath ic oc idata w =
              (fst (inst_init K p ipath idata 0 w), p, ipath, snd (inst_init K p ipath idata 0 w)) \<and>
            (\<forall>q. keeps_path (prog_effect w) q \<longrightarrow>
               fs (snd (snd (snd (create_dirs K p ipath ic oc idata w)))) q = fs w q)"
    if "fst (c_mkdir ipath 0x100 w) = Some EEXIST"
  proof -
    from that have mk: "c_mkdir ipath 0x100 w = (Some EEXIST, w)"
      by (auto simp: c_mkdir_def split: option.splits if_splits)
    have cd: "create_dirs K p ipath ic oc idata w =
              (fst (inst_init K p ipath idata 0 w), p, ipath, snd (inst_init K p ipath idata 0 w))"
      using assms(1,3,4) par mk by (simp add: create_dirs_def case_prod_beta)
    show ?thesis
      by (simp add: cd inst_init_fs)
  qed
  have fresh: "\<exists>w3 i. create_dirs K p ipath ic oc idata w =
                      (PAM_SUCCESS, p, ipath, snd (inst_init K p ipath idata 1 w3)) \<and>
                    fst (inst_init K p ipath idata 1 w3) = PAM_SUCCESS \<and>
                    fs w3 ipath = Some i \<and>
                    st_uid i = st_uid statbuf \<and> st_gid i = st_gid statbuf \<and>
                    st_mode i AND 0xFFF = st_mode statbuf AND 0xFFF \<and>
                    (keeps_path (prog_effect w) ipath \<longrightarrow>
                       fs (snd (snd (snd (create_dirs K p ipath ic oc idata w)))) ipath = Some i)"
    if "fst (c_mkdir ipath 0x100 w) = None"
      and "fst (create_dirs K p ipath ic oc idata w) = PAM_SUCCESS"
  proof -
    define w2 where "w2 = snd (c_mkdir ipath 0x100 w)"
    define w' where "w' = snd (new_instance_dir K p ipath ic oc statbuf idata w2)"
    have mk: "c_mkdir ipath 0x100 w = (None, w2)"
      using that(1) by (simp add: prod_eq_iff w2_def)
    have pe: "prog_effect w2 = prog_effect w"
      by (simp add: w2_def)
    have cd: "create_dirs K p ipath ic oc idata w =
            (fst (new_instance_dir K p ipath ic oc statbuf idata w2), p, ipath, w')"
      using assms(1,3,4) par mk by (simp add: create_dirs_def case_prod_beta w'_def)
    with that(2) have nd: "new_instance_dir K p ipath ic oc statbuf idata w2 = (PAM_SUCCESS, w')"
      by (simp add: prod_eq_iff w'_def)
    from new_instance_dir_attrs [OF nd] obtain w3 i where
      ii: "inst_init K p ipath idata 1 w3 = (PAM_SUCCESS, w')"
      and e3: "prog_effect w3 = prog_effect w2"
      and at: "fs w3 ipath = Some i" "st_uid i = st_uid statbuf" "st_gid i = st_gid statbuf"
        "st_mode i AND 0xFFF = st_mode statbuf AND 0xFFF"
      by blast
    have cd': "create_dirs K p ipath ic oc idata w =
                 (PAM_SUCCESS, p, ipath, snd (inst_init K p ipath idata 1 w3))"
      using cd nd ii by simp
    have r: "fst (inst_init K p ipath idata 1 w3) = PAM_SUCCESS"
      using ii by simp
    have keep: "fs (snd (snd (snd (create_dirs K p ipath ic oc idata w)))) ipath = Some i"
      if "keeps_path (prog_effect w) ipath"
    proof -
      from that e3 pe have "keeps_path (prog_effect w3) ipath" by simp
      then have "fs (snd (inst_init K p ipath idata 1 w3)) ipath = fs w3 ipath"
        by (rule inst_init_fs)
      with cd' at(1) show ?thesis by simp
    qed
    from cd' r at keep show ?thesis by blast
  qed
  from reuse fresh show ?thesis by blast
qed

theorem create_dirs_reuse_or_copy_witness:
  "create_dirs K0 rule_user ''/tmp-inst/alice'' None None idata0 world_reuse
     = (PAM_SUCCESS, rule_user, ''/tmp-inst/alice'', world_reuse) \<and>
   fst (create_dirs K0 rule_user ''/tmp-inst/alice'' None None idata0 world0) = PAM_SUCCESS \<and>
   map_option (\<lambda>i. (st_uid i, st_gid i, st_mode i AND 0xFFF))
     (fs (snd (snd (snd (create_dirs K0 rule_user ''/tmp-inst/alice'' None None idata0 world0))))
        ''/tmp-inst/alice'') = Some (0, 0, 0x3FF)"
proof -
  have m: "method rule_user \<noteq> TMPDIR" "method rule_user \<noteq> TMPFS"
    by (simp_all add: rule_user_def)
  have s: "c_stat (dir rule_user) world_reuse = Some (dir_inode 0 0 0x3FF)"
          "c_stat (dir rule_user) world0 = Some (dir_inode 0 0 0x3FF)"
    by (simp_all add: c_stat_def rule_user_def world_reuse_def world0_def fs0_def)
  have d: "S_ISDIR (st_mode (dir_inode 0 0 0x3FF))"
    by (simp add: S_ISDIR_def dir_inode_def)
  have c: "fst (check_inst_parent ''/tmp-inst/alice'' idata0 world_reuse) = 0"
          "fst (check_inst_parent ''/tmp-inst/alice'' idata0 world0) = 0"
    by (simp_all add: check_inst_parent_def cut_at_last_def c_stat_def world_reuse_def world0_def
          fs0_def dir_inode_def S_ISDIR_def idata0_def)
  have e: "fst (c_mkdir ''/tmp-inst/alice'' 0x100 world_reuse) = Some EEXIST"
    by (simp add: c_mkdir_def world_reuse_def world0_def)
  have n: "fst (c_mkdir ''/tmp-inst/alice'' 0x100 world0) = None"
    by (simp add: c_mkdir_def world0_def fs0_def)
  have i: "inst_init K0 rule_user ''/tmp-inst/alice'' idata0 0 world_reuse = (PAM_SUCCESS, world_reuse)"
    by (simp add: inst_init_def c_signal_def run_init_script_def access_F_OK_def
          world_reuse_def world0_def fs0_def K0_def)
  have k: "keeps_path (prog_effect world0) ''/tmp-inst/alice''"
    by (simp add: keeps_path_def world0_def)
  have ok: "fst (create_dirs K0 rule_user ''/tmp-inst/alice'' None None idata0 world0) = PAM_SUCCESS"
    by code_simp
  from create_dirs_reuse_or_copy [OF m s(1) d c(1), of K0 None None] e i
  have r1: "create_dirs K0 rule_user ''/tmp-inst/alice'' None None idata0 world_reuse
     = (PAM_SUCCESS, rule_user, ''/tmp-inst/alice'', world_reuse)"
    by simp
  from create_dirs_reuse_or_copy [OF m s(2) d c(2), of K0 None None] n ok k
  obtain j where j: "fs (snd (snd (snd (create_dirs K0 rule_user ''/tmp-inst/alice'' None None
                       idata0 world0)))) ''/tmp-inst/alice'' = Some j"
    "st_uid j = 0" "st_gid j = 0" "st_mode j AND 0xFFF = 0x3FF"
    by (auto simp: dir_inode_def)
  from j have "map_option (\<lambda>i. (st_uid i, st_gid i, st_mode i AND 0xFFF))
          (fs (snd (snd (snd (create_dirs K0 rule_user ''/tmp-inst/alice'' None None idata0 world0))))
             ''/tmp-inst/alice'') = Some (0, 0, 0x3FF)"
    by simp
  with r1 ok show ?thesis by simp
qed

text \<open>
  C7 as stated fails: an instance directory that exists already is reused as it is, so
  after a successful \<^verbatim>\<open>create_dirs\<close> its owner and mode can differ from those of the
  directory to polyinstantiate.
\<close>

theorem create_dirs_reuse_keeps_attributes:
  "fst (create_dirs K0 rule_user ''/tmp-inst/alice'' None None idata0 world_reuse) = PAM_SUCCESS \<and>
   fs (snd (snd (snd (create_dirs K0 rule_user ''/tmp-inst/alice'' None None idata0 world_reuse))))
      ''/tmp-inst/alice'' = Some (dir_inode 1000 1000 0x1C0) \<and>
   fs (snd (snd (snd (create_dirs K0 rule_user ''/tmp-inst/alice'' None None idata0 world_reuse))))
      ''/tmp'' = Some (dir_inode 0 0 0x3FF) \<and>
   st_uid (dir_inode 1000 1000 0x1C0) \<noteq> st_uid (dir_inode 0 0 0x3FF) \<and>
   st_mode (dir_inode 1000 1000 0x1C0) AND 0xFFF \<noteq> st_mode (dir_inode 0 0 0x3FF) AND 0xFFF"
  by code_simp

subsection \<open>Config loader\<close>




subsection \<open>A rule fails during setup\<close>




end
